theory Spec2Isabelle
  imports Complex_Main "HOL-Library.Word" "HOL-Library.Sublist"
begin

unbundle bit_operations_syntax

section \<open>The scripts' world: the engine, the browser and the page\<close>

text \<open>
  The three scripts (\<^verbatim>\<open>simple_event.js\<close>, \<^verbatim>\<open>music_callbacks.js\<close> and a third, older
  variant of the simple-event example) drive the FMOD Studio engine from a web page.
  The engine and the browser are not part of the repository: the engine is a parameter
  of the model (a function from its own state and a call to a reply and its next state),
  and so are the constants of the \<^verbatim>\<open>FMOD\<close> object and the browser's number formatting.

  Each script function becomes a function from the page state to an outcome and the next
  page state. An outcome is a value or an exception; the state after an exception is kept,
  because what was done before the \<^verbatim>\<open>throw\<close> stays done. Everything a script does to
  the outside (engine calls, alerts, console output, DOM writes, timers and listeners) is
  appended to the \<open>trace\<close> of the page, in the order it happens.

  The functions modelled are \<^verbatim>\<open>CHECK_RESULT\<close>, \<^verbatim>\<open>main\<close>, \<^verbatim>\<open>initApplication\<close>,
  \<^verbatim>\<open>loadBank\<close>, \<^verbatim>\<open>updateApplication\<close>, \<^verbatim>\<open>playEvent\<close>, \<^verbatim>\<open>toggleProgression\<close>,
  \<^verbatim>\<open>markerCallback\<close> and \<^verbatim>\<open>resumeAudio\<close>, each from the file it stands in. The file
  preloading of \<^verbatim>\<open>prerun\<close>, which runs before the engine exists, is left out.
\<close>

subsection \<open>Values\<close>

type_synonym handle = nat
type_synonym flags = "32 word"
type_synonym parameter_id = "nat \<times> nat"

text \<open>
  A JavaScript number. The finite doubles are rationals; the sign of zero is not
  represented. The scripts compare numbers with \<^verbatim>\<open>==\<close> against literals; arithmetic and
  formatting, which round, are left to the browser (see \<open>browser\<close> below).
\<close>

datatype jsnumber = Finite rat | NaN | PosInfinity | NegInfinity

definition js_eq :: "jsnumber \<Rightarrow> jsnumber \<Rightarrow> bool" where
  "js_eq a b = (a \<noteq> NaN \<and> b \<noteq> NaN \<and> a = b)"

text \<open>
  A JavaScript value, as far as the scripts can tell values apart: the primitives, and
  \<open>Object p\<close> for an object that converts to the primitive \<open>p\<close> when it is compared or
  printed (an array converts to its joined string, a wrapper object to the value it wraps).
  An object whose conversion has effects of its own is not represented.
\<close>

datatype jsvalue =
    Undefined
  | Null
  | Boolean bool
  | Number jsnumber
  | String string
  | BigInt int
  | Symbol
  | Object jsvalue

text \<open>What a script can throw: the message of \<^verbatim>\<open>CHECK_RESULT\<close>, or the runtime's
  \<^verbatim>\<open>TypeError\<close> on a property or method of \<^verbatim>\<open>undefined\<close> or \<^verbatim>\<open>null\<close>.\<close>

datatype exn = Thrown string | TypeError

subsection \<open>The engine's API\<close>

datatype call =
    Studio_System_Create
  | GetCoreSystem handle
  | SetDSPBufferSize handle int int
  | GetDriverInfo handle int
  | SetSoftwareFormat handle jsnumber flags int
  | Initialize handle int flags flags
  | LoadBankFile handle string flags
  | GetEvent handle string
  | CreateInstance handle
  | LoadSampleData handle
  | Start handle
  | Stop handle flags
  | Release handle
  | SetCallback handle string flags
  | GetParameterDescriptionByName handle string
  | SetParameterByID handle "parameter_id option" jsnumber bool
  | GetCPUUsage handle
  | GetChannelsPlaying handle
  | GetDSPBufferSize handle
  | GetSoftwareFormat handle
  | Update handle
  | MixerSuspend handle
  | MixerResume handle
  | GetName handle
  | GetLength handle flags

text \<open>
  A reply is the returned result code together with what the engine wrote into the
  out-parameter objects of the call. A script reads only the fields that the call it made
  writes, and only after the result code has been checked.
\<close>

record reply =
  result :: int
  val_handle :: handle
  val_number :: jsnumber
  val_number2 :: jsnumber
  val_string :: string
  val_id :: parameter_id
  cpu_dsp :: jsnumber
  cpu_stream :: jsnumber
  cpu_update :: jsnumber

text \<open>The \<^verbatim>\<open>FMOD\<close> object: its constants, \<^verbatim>\<open>FMOD.ErrorString\<close>, and the engine behind it.\<close>

record 'e fmod =
  OK :: int
  ErrorString :: "int \<Rightarrow> string"
  SPEAKERMODE_DEFAULT :: flags
  STUDIO_INIT_NORMAL :: flags
  INIT_NORMAL :: flags
  STUDIO_LOAD_BANK_NORMAL :: flags
  STUDIO_STOP_IMMEDIATE :: flags
  TIMEUNIT_MS :: flags
  STUDIO_EVENT_CALLBACK_TIMELINE_MARKER :: flags
  STUDIO_EVENT_CALLBACK_TIMELINE_BEAT :: flags
  STUDIO_EVENT_CALLBACK_SOUND_PLAYED :: flags
  STUDIO_EVENT_CALLBACK_SOUND_STOPPED :: flags
  respond :: "'e \<Rightarrow> call \<Rightarrow> reply \<times> 'e"

text \<open>The browser: number arithmetic and formatting, the elements of the document, and
  the reading of a string as a number, and the outcome of the user-agent test of the third
  script.\<close>

record browser =
  toFixed :: "jsnumber \<Rightarrow> nat \<Rightarrow> string"
  toString :: "jsnumber \<Rightarrow> string"
  plus_js :: "jsnumber \<Rightarrow> jsnumber \<Rightarrow> jsnumber"
  times_js :: "jsnumber \<Rightarrow> jsnumber \<Rightarrow> jsnumber"
  divide_js :: "jsnumber \<Rightarrow> jsnumber \<Rightarrow> jsnumber"
  string_to_number :: "string \<Rightarrow> jsnumber"
  has_element :: "string \<Rightarrow> bool"
  iOS :: bool

text \<open>
  \<^verbatim>\<open>value == n\<close> for a number \<open>n\<close>, the loose equality of the language: a number is
  compared as it is, a string by the number it reads as (\<open>string_to_number\<close>, the
  language's \<^verbatim>\<open>ToNumber\<close> on strings), a boolean as 1 or 0, a BigInt by its value, an object
  by the primitive it converts to; \<^verbatim>\<open>undefined\<close>, \<^verbatim>\<open>null\<close> and symbols equal no number.
\<close>

fun loose_eq :: "browser \<Rightarrow> jsvalue \<Rightarrow> jsnumber \<Rightarrow> bool" where
  "loose_eq br (Number x) n = js_eq x n"
| "loose_eq br (String str) n = js_eq (string_to_number br str) n"
| "loose_eq br (Boolean b) n = js_eq (Finite (if b then 1 else 0)) n"
| "loose_eq br (BigInt i) n = js_eq (Finite (of_int i)) n"
| "loose_eq br (Object p) n = loose_eq br p n"
| "loose_eq br Undefined n = False"
| "loose_eq br Null n = False"
| "loose_eq br Symbol n = False"

subsection \<open>Observable effects and the page state\<close>

datatype effect =
    EngineCall call reply
  | Alert string
  | ConsoleLog string "jsvalue list"
  | SetValue string string
  | SetDisabled string bool
  | SetInterval string int
  | AddEventListener string string string

text \<open>The globals that all three scripts declare. \<open>None\<close> is \<^verbatim>\<open>undefined\<close>.\<close>

record 'e page =
  engine :: 'e
  trace :: "effect list"
  gSystem :: "handle option"
  gSystemCore :: "handle option"

subsection \<open>Statements\<close>

type_synonym ('s, 'a) script = "'s \<Rightarrow> (exn + 'a) \<times> 's"

definition return :: "'a \<Rightarrow> ('s, 'a) script" where
  "return x = (\<lambda>s. (Inr x, s))"

definition throw :: "exn \<Rightarrow> ('s, 'a) script" where
  "throw e = (\<lambda>s. (Inl e, s))"

text \<open>\<open>seq m k\<close> runs \<open>m\<close> and then \<open>k\<close> on its value; an exception of \<open>m\<close> skips \<open>k\<close>.\<close>

definition seq :: "('s, 'a) script \<Rightarrow> ('a \<Rightarrow> ('s, 'b) script) \<Rightarrow> ('s, 'b) script" where
  "seq m k = (\<lambda>s. case m s of (Inl e, s') \<Rightarrow> (Inl e, s') | (Inr x, s') \<Rightarrow> k x s')"

definition emit :: "effect \<Rightarrow> (('e, 'a) page_scheme, unit) script" where
  "emit x = (\<lambda>s. (Inr (), s\<lparr>trace := trace s @ [x]\<rparr>))"

definition alert :: "string \<Rightarrow> (('e, 'a) page_scheme, unit) script" where
  "alert msg = emit (Alert msg)"

definition console_log :: "string \<Rightarrow> jsvalue list \<Rightarrow> (('e, 'a) page_scheme, unit) script" where
  "console_log fmt args = emit (ConsoleLog fmt args)"

text \<open>An engine call: the engine answers and moves on, and the call is on the trace.\<close>

definition engine_call :: "('e, 'f) fmod_scheme \<Rightarrow> call \<Rightarrow> (('e, 'a) page_scheme, reply) script" where
  "engine_call fm c = (\<lambda>s.
     let answer = respond fm (engine s) c
     in (Inr (fst answer),
         s\<lparr>engine := snd answer, trace := trace s @ [EngineCall c (fst answer)]\<rparr>))"

definition modify :: "('s \<Rightarrow> 's) \<Rightarrow> ('s, unit) script" where
  "modify f = (\<lambda>s. (Inr (), f s))"

text \<open>A method call \<^verbatim>\<open>obj.method(...)\<close> on an engine object held in a variable: on
  \<^verbatim>\<open>undefined\<close> the runtime throws before the engine is reached. The variable and the
  arguments are read from the state at the moment of the call.\<close>

definition invoke ::
  "('e, 'f) fmod_scheme \<Rightarrow> (('e, 'a) page_scheme \<Rightarrow> handle option) \<Rightarrow>
   (('e, 'a) page_scheme \<Rightarrow> handle \<Rightarrow> call) \<Rightarrow> (('e, 'a) page_scheme, reply) script" where
  "invoke fm obj method = (\<lambda>s.
     case obj s of None \<Rightarrow> throw TypeError s | Some h \<Rightarrow> engine_call fm (method s h) s)"

text \<open>\<^verbatim>\<open>document.querySelector(sel).value = text\<close> and
  \<^verbatim>\<open>document.getElementById(id).disabled = flag\<close>: a missing element is \<^verbatim>\<open>null\<close>.\<close>

definition set_value :: "browser \<Rightarrow> string \<Rightarrow> string \<Rightarrow> (('e, 'a) page_scheme, unit) script" where
  "set_value br sel text =
     (if has_element br sel then emit (SetValue sel text) else throw TypeError)"

definition set_disabled :: "browser \<Rightarrow> string \<Rightarrow> bool \<Rightarrow> (('e, 'a) page_scheme, unit) script" where
  "set_disabled br ident flag =
     (if has_element br ident then emit (SetDisabled ident flag) else throw TypeError)"

definition apostrophe :: string where
  "apostrophe = [CHR 0x27]"

definition newline :: string where
  "newline = [CHR 0x0A]"

section \<open>simple\_event.js\<close>

text \<open>The script's globals: the three out-parameter objects start as \<^verbatim>\<open>{}\<close>, and the
  field holds their \<^verbatim>\<open>val\<close> property.\<close>

record 'e simple_event = "'e page" +
  explosionDescription :: "handle option"
  loopingAmbienceInstance :: "handle option"
  cancelInstance :: "handle option"

definition CHECK_RESULT :: "('e, 'f) fmod_scheme \<Rightarrow> int \<Rightarrow> (('e, 'a) page_scheme, unit) script" where
  "CHECK_RESULT fm result' =
     (if result' \<noteq> OK fm
      then (let msg = ''Error!!! '' @ apostrophe @ ErrorString fm result' @ apostrophe
            in seq (alert msg) (\<lambda>_. throw (Thrown msg)))
      else return ())"

definition updateApplication ::
  "('e, 'f) fmod_scheme \<Rightarrow> browser \<Rightarrow> (('e, 'a) page_scheme, unit) script" where
  "updateApplication fm br =
     seq (invoke fm gSystemCore (\<lambda>_. GetCPUUsage)) (\<lambda>cpu.
     seq (CHECK_RESULT fm (result cpu)) (\<lambda>_.
     seq (invoke fm gSystemCore (\<lambda>_. GetChannelsPlaying)) (\<lambda>channelsplaying.
     seq (CHECK_RESULT fm (result channelsplaying)) (\<lambda>_.
     seq (set_value br ''#display_out''
            (''Channels Playing = '' @ toString br (val_number channelsplaying) @
             '' : CPU = dsp '' @ toFixed br (cpu_dsp cpu) 2 @
             ''% stream '' @ toFixed br (cpu_stream cpu) 2 @
             ''% update '' @ toFixed br (cpu_update cpu) 2 @
             ''% total '' @
               toFixed br (plus_js br (plus_js br (cpu_dsp cpu) (cpu_stream cpu)) (cpu_update cpu)) 2 @
             ''%'')) (\<lambda>_.
     seq (invoke fm gSystemCore (\<lambda>_. GetDSPBufferSize)) (\<lambda>buffers.
     seq (CHECK_RESULT fm (result buffers)) (\<lambda>_.
     seq (invoke fm gSystemCore (\<lambda>_. GetSoftwareFormat)) (\<lambda>rate.
     seq (CHECK_RESULT fm (result rate)) (\<lambda>_.
     seq (invoke fm gSystemCore (\<lambda>_ h. GetDriverInfo h 0)) (\<lambda>sysrate.
     seq (CHECK_RESULT fm (result sysrate)) (\<lambda>_.
     (let buffersize = val_number buffers;
          numbuffers = val_number2 buffers;
          ms = divide_js br (times_js br (times_js br numbuffers buffersize) (Finite 1000))
                 (val_number rate)
      in
     seq (set_value br ''#display_out2''
            (''Mixer rate = '' @ toString br (val_number rate) @
             ''hz : System rate = '' @ toString br (val_number sysrate) @
             ''hz : DSP buffer size = '' @ toString br numbuffers @
             '' buffers of '' @ toString br buffersize @
             '' samples ('' @ toFixed br ms 2 @ '' ms)'')) (\<lambda>_.
     seq (invoke fm gSystem (\<lambda>_. Update)) (\<lambda>answer.
     CHECK_RESULT fm (result answer)))))))))))))))"

definition loadBank ::
  "('e, 'f) fmod_scheme \<Rightarrow> string \<Rightarrow> (('e, 'a) page_scheme, unit) script" where
  "loadBank fm name =
     seq (invoke fm gSystem (\<lambda>_ h. LoadBankFile h (''/'' @ name) (STUDIO_LOAD_BANK_NORMAL fm)))
       (\<lambda>bankhandle.
     CHECK_RESULT fm (result bankhandle))"

definition initApplication ::
  "('e, 'f) fmod_scheme \<Rightarrow> browser \<Rightarrow> (('e, 'a) simple_event_scheme, unit) script" where
  "initApplication fm br =
     seq (console_log (''Loading events'' @ newline) []) (\<lambda>_.
     seq (loadBank fm ''Master.bank'') (\<lambda>_.
     seq (loadBank fm ''Master.strings.bank'') (\<lambda>_.
     seq (loadBank fm ''SFX.bank'') (\<lambda>_.
     seq (invoke fm gSystem (\<lambda>_ h. GetEvent h ''event:/Ambience/Country''))
       (\<lambda>loopingAmbienceDescription.
     seq (CHECK_RESULT fm (result loopingAmbienceDescription)) (\<lambda>_.
     seq (invoke fm (\<lambda>_. Some (val_handle loopingAmbienceDescription)) (\<lambda>_. CreateInstance))
       (\<lambda>answer.
     seq (modify (\<lambda>s. s\<lparr>loopingAmbienceInstance := Some (val_handle answer)\<rparr>)) (\<lambda>_.
     seq (CHECK_RESULT fm (result answer)) (\<lambda>_.
     seq (invoke fm gSystem (\<lambda>_ h. GetEvent h ''event:/UI/Cancel'')) (\<lambda>cancelDescription.
     seq (CHECK_RESULT fm (result cancelDescription)) (\<lambda>_.
     seq (invoke fm (\<lambda>_. Some (val_handle cancelDescription)) (\<lambda>_. CreateInstance))
       (\<lambda>answer.
     seq (modify (\<lambda>s. s\<lparr>cancelInstance := Some (val_handle answer)\<rparr>)) (\<lambda>_.
     seq (CHECK_RESULT fm (result answer)) (\<lambda>_.
     seq (invoke fm gSystem (\<lambda>_ h. GetEvent h ''event:/Weapons/Explosion'')) (\<lambda>answer.
     seq (modify (\<lambda>s. s\<lparr>explosionDescription := Some (val_handle answer)\<rparr>)) (\<lambda>_.
     seq (CHECK_RESULT fm (result answer)) (\<lambda>_.
     seq (invoke fm explosionDescription (\<lambda>_. LoadSampleData)) (\<lambda>answer.
     seq (CHECK_RESULT fm (result answer)) (\<lambda>_.
     seq (set_disabled br ''playEvent0'' False) (\<lambda>_.
     seq (set_disabled br ''playEvent1'' False) (\<lambda>_.
     seq (set_disabled br ''playEvent2'' False) (\<lambda>_.
     set_disabled br ''playEvent3'' False))))))))))))))))))))))"

definition main ::
  "('e, 'f) fmod_scheme \<Rightarrow> browser \<Rightarrow> (('e, 'a) simple_event_scheme, int) script" where
  "main fm br =
     seq (console_log (''Creating FMOD System object'' @ newline) []) (\<lambda>_.
     seq (engine_call fm Studio_System_Create) (\<lambda>outval.
     seq (CHECK_RESULT fm (result outval)) (\<lambda>_.
     seq (console_log (''grabbing system object from temporary and storing it'' @ newline) [])
       (\<lambda>_.
     seq (modify (\<lambda>s. s\<lparr>gSystem := Some (val_handle outval)\<rparr>)) (\<lambda>_.
     seq (invoke fm gSystem (\<lambda>_. GetCoreSystem)) (\<lambda>outval.
     seq (CHECK_RESULT fm (result outval)) (\<lambda>_.
     seq (modify (\<lambda>s. s\<lparr>gSystemCore := Some (val_handle outval)\<rparr>)) (\<lambda>_.
     seq (console_log (''set DSP Buffer size.'' @ newline) []) (\<lambda>_.
     seq (invoke fm gSystemCore (\<lambda>_ h. SetDSPBufferSize h 2048 2)) (\<lambda>answer.
     seq (CHECK_RESULT fm (result answer)) (\<lambda>_.
     seq (console_log ''Set mixer sample rate'' []) (\<lambda>_.
     seq (invoke fm gSystemCore (\<lambda>_ h. GetDriverInfo h 0)) (\<lambda>outval.
     seq (CHECK_RESULT fm (result outval)) (\<lambda>_.
     seq (invoke fm gSystemCore
            (\<lambda>_ h. SetSoftwareFormat h (val_number outval) (SPEAKERMODE_DEFAULT fm) 0))
       (\<lambda>answer.
     seq (CHECK_RESULT fm (result answer)) (\<lambda>_.
     seq (console_log (''initialize FMOD'' @ newline) []) (\<lambda>_.
     seq (invoke fm gSystem (\<lambda>_ h. Initialize h 1024 (STUDIO_INIT_NORMAL fm) (INIT_NORMAL fm)))
       (\<lambda>answer.
     seq (CHECK_RESULT fm (result answer)) (\<lambda>_.
     seq (console_log (''initialize Application'' @ newline) []) (\<lambda>_.
     seq (initApplication fm br) (\<lambda>_.
     seq (console_log (''Start game loop'' @ newline) []) (\<lambda>_.
     seq (emit (SetInterval ''updateApplication'' 20)) (\<lambda>_.
     return (OK fm))))))))))))))))))))))))"

definition playEvent ::
  "('e, 'f) fmod_scheme \<Rightarrow> browser \<Rightarrow> jsvalue \<Rightarrow> (('e, 'a) simple_event_scheme, unit) script" where
  "playEvent fm br soundid =
     (if loose_eq br soundid (Finite 0) then
        seq (invoke fm explosionDescription (\<lambda>_. CreateInstance)) (\<lambda>eventInstance.
        seq (CHECK_RESULT fm (result eventInstance)) (\<lambda>_.
        seq (invoke fm (\<lambda>_. Some (val_handle eventInstance)) (\<lambda>_. Start)) (\<lambda>answer.
        seq (CHECK_RESULT fm (result answer)) (\<lambda>_.
        seq (invoke fm (\<lambda>_. Some (val_handle eventInstance)) (\<lambda>_. Release)) (\<lambda>answer.
        CHECK_RESULT fm (result answer))))))
      else if loose_eq br soundid (Finite 1) then
        seq (invoke fm loopingAmbienceInstance (\<lambda>_. Start)) (\<lambda>answer.
        CHECK_RESULT fm (result answer))
      else if loose_eq br soundid (Finite 2) then
        seq (invoke fm loopingAmbienceInstance (\<lambda>_ h. Stop h (STUDIO_STOP_IMMEDIATE fm)))
          (\<lambda>answer.
        CHECK_RESULT fm (result answer))
      else if loose_eq br soundid (Finite 3) then
        seq (invoke fm cancelInstance (\<lambda>_. Start)) (\<lambda>answer.
        CHECK_RESULT fm (result answer))
      else return ())"

section \<open>music\_callbacks.js\<close>

text \<open>The script's globals. \<^verbatim>\<open>gEventInstance\<close> starts as the empty object \<^verbatim>\<open>{}\<close>, which
  has no engine method, so \<open>None\<close> stands for it as well; \<^verbatim>\<open>gProgression\<close> starts at 0.\<close>

record 'e music_callbacks = "'e page" +
  gEventInstance :: "handle option"
  gProgression :: jsnumber
  gProgressionID :: "parameter_id option"

text \<open>The \<^verbatim>\<open>parameters\<close> argument that the engine hands to an event callback: nothing,
  a structure of named properties, or a Sound object of the engine.\<close>

datatype parameters =
    NoParameters
  | Properties "(string \<times> jsvalue) list"
  | Sound handle

text \<open>\<^verbatim>\<open>props.name\<close>: reading a property of \<^verbatim>\<open>null\<close> throws, an absent property is
  \<^verbatim>\<open>undefined\<close>.\<close>

definition property :: "parameters \<Rightarrow> string \<Rightarrow> ('s, jsvalue) script" where
  "property props name =
     (case props of
        NoParameters \<Rightarrow> throw TypeError
      | Properties ps \<Rightarrow> return (case map_of ps name of None \<Rightarrow> Undefined | Some v \<Rightarrow> v)
      | Sound h \<Rightarrow> return Undefined)"

text \<open>\<^verbatim>\<open>sound.getName(...)\<close>: only a Sound has the engine's methods.\<close>

definition invoke_sound ::
  "('e, 'f) fmod_scheme \<Rightarrow> parameters \<Rightarrow> (handle \<Rightarrow> call) \<Rightarrow> (('e, 'a) page_scheme, reply) script" where
  "invoke_sound fm sound method =
     (case sound of Sound h \<Rightarrow> engine_call fm (method h) | _ \<Rightarrow> throw TypeError)"

definition CHECK_RESULT_music_callbacks ::
  "('e, 'f) fmod_scheme \<Rightarrow> int \<Rightarrow> (('e, 'a) page_scheme, unit) script" where
  "CHECK_RESULT_music_callbacks fm result' =
     (if result' \<noteq> OK fm
      then (let msg = ''Error!!! '' @ apostrophe @ ErrorString fm result' @ apostrophe
            in seq (alert msg) (\<lambda>_. throw (Thrown msg)))
      else return ())"

definition updateApplication_music_callbacks ::
  "('e, 'f) fmod_scheme \<Rightarrow> browser \<Rightarrow> (('e, 'a) page_scheme, unit) script" where
  "updateApplication_music_callbacks fm br =
     seq (invoke fm gSystemCore (\<lambda>_. GetCPUUsage)) (\<lambda>cpu.
     seq (CHECK_RESULT_music_callbacks fm (result cpu)) (\<lambda>_.
     seq (invoke fm gSystemCore (\<lambda>_. GetChannelsPlaying)) (\<lambda>channelsplaying.
     seq (CHECK_RESULT_music_callbacks fm (result channelsplaying)) (\<lambda>_.
     seq (set_value br ''#display_out''
            (''Channels Playing = '' @ toString br (val_number channelsplaying) @
             '' : CPU = dsp '' @ toFixed br (cpu_dsp cpu) 2 @
             ''% stream '' @ toFixed br (cpu_stream cpu) 2 @
             ''% update '' @ toFixed br (cpu_update cpu) 2 @
             ''% total '' @
               toFixed br (plus_js br (plus_js br (cpu_dsp cpu) (cpu_stream cpu)) (cpu_update cpu)) 2 @
             ''%'')) (\<lambda>_.
     seq (invoke fm gSystemCore (\<lambda>_. GetDSPBufferSize)) (\<lambda>buffers.
     seq (CHECK_RESULT_music_callbacks fm (result buffers)) (\<lambda>_.
     seq (invoke fm gSystemCore (\<lambda>_. GetSoftwareFormat)) (\<lambda>rate.
     seq (CHECK_RESULT_music_callbacks fm (result rate)) (\<lambda>_.
     seq (invoke fm gSystemCore (\<lambda>_ h. GetDriverInfo h 0)) (\<lambda>sysrate.
     seq (CHECK_RESULT_music_callbacks fm (result sysrate)) (\<lambda>_.
     (let buffersize = val_number buffers;
          numbuffers = val_number2 buffers;
          ms = divide_js br (times_js br (times_js br numbuffers buffersize) (Finite 1000))
                 (val_number rate)
      in
     seq (set_value br ''#display_out2''
            (''Mixer rate = '' @ toString br (val_number rate) @
             ''hz : System rate = '' @ toString br (val_number sysrate) @
             ''hz : DSP buffer size = '' @ toString br numbuffers @
             '' buffers of '' @ toString br buffersize @
             '' samples ('' @ toFixed br ms 2 @ '' ms)'')) (\<lambda>_.
     seq (invoke fm gSystem (\<lambda>_. Update)) (\<lambda>answer.
     CHECK_RESULT_music_callbacks fm (result answer)))))))))))))))"

definition loadBank_music_callbacks ::
  "('e, 'f) fmod_scheme \<Rightarrow> string \<Rightarrow> (('e, 'a) page_scheme, unit) script" where
  "loadBank_music_callbacks fm name =
     seq (invoke fm gSystem (\<lambda>_ h. LoadBankFile h (''/'' @ name) (STUDIO_LOAD_BANK_NORMAL fm)))
       (\<lambda>bankhandle.
     CHECK_RESULT_music_callbacks fm (result bankhandle))"

definition toggleProgression ::
  "('e, 'f) fmod_scheme \<Rightarrow> browser \<Rightarrow> (('e, 'a) music_callbacks_scheme, unit) script" where
  "toggleProgression fm br =
     seq (modify (\<lambda>s. s\<lparr>gProgression :=
            (if js_eq (gProgression s) (Finite 0) then Finite 1 else Finite 0)\<rparr>)) (\<lambda>_.
     seq (invoke fm gEventInstance
            (\<lambda>s h. SetParameterByID h (gProgressionID s) (gProgression s) False)) (\<lambda>answer.
     seq (CHECK_RESULT_music_callbacks fm (result answer)) (\<lambda>_.
     (\<lambda>s. console_log
            (''------------- TOGGLED PROGRESSION TO '' @ toString br (gProgression s)) [] s))))"

text \<open>The callback that the engine calls back with the type of the event, the event
  instance and the parameters of the event.\<close>

definition markerCallback ::
  "('e, 'f) fmod_scheme \<Rightarrow> browser \<Rightarrow> flags \<Rightarrow> handle \<Rightarrow> parameters \<Rightarrow>
   (('e, 'a) page_scheme, int) script" where
  "markerCallback fm br type event parameters' =
     seq (if type = STUDIO_EVENT_CALLBACK_TIMELINE_MARKER fm then
            seq (property parameters' ''name'') (\<lambda>name.
            console_log (''Named marker '' @ apostrophe @ ''%s'' @ apostrophe) [name])
          else if type = STUDIO_EVENT_CALLBACK_TIMELINE_BEAT fm then
            seq (property parameters' ''beat'') (\<lambda>beat.
            seq (property parameters' ''bar'') (\<lambda>bar.
            seq (property parameters' ''tempo'') (\<lambda>tempo.
            seq (property parameters' ''timesignatureupper'') (\<lambda>timesignatureupper.
            seq (property parameters' ''timesignaturelower'') (\<lambda>timesignaturelower.
            console_log ''beat %d, bar %d (tempo %.1f %d:%d)''
              [beat, bar, tempo, timesignatureupper, timesignaturelower])))))
          else if type = STUDIO_EVENT_CALLBACK_SOUND_PLAYED fm
                  \<or> type = STUDIO_EVENT_CALLBACK_SOUND_STOPPED fm then
            seq (invoke_sound fm parameters' GetName) (\<lambda>outval.
            seq (CHECK_RESULT_music_callbacks fm (result outval)) (\<lambda>_.
            (let name = val_string outval in
            seq (invoke_sound fm parameters' (\<lambda>h. GetLength h (TIMEUNIT_MS fm))) (\<lambda>outval.
            seq (CHECK_RESULT_music_callbacks fm (result outval)) (\<lambda>_.
            (let len = val_number outval in
            console_log
              (''Sound '' @ apostrophe @ ''%s'' @ apostrophe @ '' (length %.3f) %s'')
              [String name, Number (divide_js br len (Finite 1000)),
               String (if type = STUDIO_EVENT_CALLBACK_SOUND_PLAYED fm
                       then ''Started'' else ''Stopped'')]))))))
          else return ()) (\<lambda>_.
     return (OK fm))"

text \<open>The callback mask is written in the script with a misspelt first constant,
  \<^verbatim>\<open>FMOD.DSTUDIO_EVENT_CALLBACK_TIMELINE_MARKER\<close>, which the \<^verbatim>\<open>FMOD\<close> object does not have:
  it is \<^verbatim>\<open>undefined\<close> and contributes no bit to the mask.\<close>

definition initApplication_music_callbacks ::
  "('e, 'f) fmod_scheme \<Rightarrow> browser \<Rightarrow> (('e, 'a) music_callbacks_scheme, unit) script" where
  "initApplication_music_callbacks fm br =
     seq (console_log (''Loading events'' @ newline) []) (\<lambda>_.
     seq (loadBank_music_callbacks fm ''Master.bank'') (\<lambda>_.
     seq (loadBank_music_callbacks fm ''Master.strings.bank'') (\<lambda>_.
     seq (loadBank_music_callbacks fm ''Music.bank'') (\<lambda>_.
     seq (invoke fm gSystem (\<lambda>_ h. GetEvent h ''event:/Music/Level 01'')) (\<lambda>outval.
     seq (CHECK_RESULT_music_callbacks fm (result outval)) (\<lambda>_.
     (let eventDescription = Some (val_handle outval) in
     seq (invoke fm (\<lambda>_. eventDescription) (\<lambda>_. CreateInstance)) (\<lambda>outval.
     seq (CHECK_RESULT_music_callbacks fm (result outval)) (\<lambda>_.
     seq (modify (\<lambda>s. s\<lparr>gEventInstance := Some (val_handle outval)\<rparr>)) (\<lambda>_.
     seq (invoke fm gEventInstance
            (\<lambda>_ h. SetCallback h ''markerCallback''
               (0 OR STUDIO_EVENT_CALLBACK_TIMELINE_BEAT fm
                  OR STUDIO_EVENT_CALLBACK_SOUND_PLAYED fm
                  OR STUDIO_EVENT_CALLBACK_SOUND_STOPPED fm))) (\<lambda>answer.
     seq (CHECK_RESULT_music_callbacks fm (result answer)) (\<lambda>_.
     seq (invoke fm gEventInstance (\<lambda>_. Start)) (\<lambda>answer.
     seq (CHECK_RESULT_music_callbacks fm (result answer)) (\<lambda>_.
     seq (invoke fm (\<lambda>_. eventDescription)
            (\<lambda>_ h. GetParameterDescriptionByName h ''Progression'')) (\<lambda>parameterDescription.
     seq (CHECK_RESULT_music_callbacks fm (result parameterDescription)) (\<lambda>_.
     seq (modify (\<lambda>s. s\<lparr>gProgressionID := Some (val_id parameterDescription)\<rparr>)) (\<lambda>_.
     seq (invoke fm gEventInstance
            (\<lambda>s h. SetParameterByID h (gProgressionID s) (gProgression s) False)) (\<lambda>answer.
     seq (CHECK_RESULT_music_callbacks fm (result answer)) (\<lambda>_.
     set_disabled br ''toggleid'' False)))))))))))))))))))"

definition main_music_callbacks ::
  "('e, 'f) fmod_scheme \<Rightarrow> browser \<Rightarrow> (('e, 'a) music_callbacks_scheme, int) script" where
  "main_music_callbacks fm br =
     seq (console_log (''Creating FMOD System object'' @ newline) []) (\<lambda>_.
     seq (engine_call fm Studio_System_Create) (\<lambda>outval.
     seq (CHECK_RESULT_music_callbacks fm (result outval)) (\<lambda>_.
     seq (console_log (''grabbing system object from temporary and storing it'' @ newline) [])
       (\<lambda>_.
     seq (modify (\<lambda>s. s\<lparr>gSystem := Some (val_handle outval)\<rparr>)) (\<lambda>_.
     seq (invoke fm gSystem (\<lambda>_. GetCoreSystem)) (\<lambda>outval.
     seq (CHECK_RESULT_music_callbacks fm (result outval)) (\<lambda>_.
     seq (modify (\<lambda>s. s\<lparr>gSystemCore := Some (val_handle outval)\<rparr>)) (\<lambda>_.
     seq (console_log (''set DSP Buffer size.'' @ newline) []) (\<lambda>_.
     seq (invoke fm gSystemCore (\<lambda>_ h. SetDSPBufferSize h 2048 2)) (\<lambda>answer.
     seq (CHECK_RESULT_music_callbacks fm (result answer)) (\<lambda>_.
     seq (console_log (''initialize FMOD'' @ newline) []) (\<lambda>_.
     seq (invoke fm gSystem (\<lambda>_ h. Initialize h 1024 (STUDIO_INIT_NORMAL fm) (INIT_NORMAL fm)))
       (\<lambda>answer.
     seq (CHECK_RESULT_music_callbacks fm (result answer)) (\<lambda>_.
     seq (console_log (''initialize Application'' @ newline) []) (\<lambda>_.
     seq (initApplication_music_callbacks fm br) (\<lambda>_.
     seq (console_log (''Start game loop'' @ newline) []) (\<lambda>_.
     seq (emit (SetInterval ''updateApplication'' 20)) (\<lambda>_.
     return (OK fm)))))))))))))))))))"

section \<open>The third script\<close>

text \<open>The script's globals.\<close>

record 'e part_000 = "'e page" +
  loopingAmbienceInstance_part_000 :: "handle option"
  gAudioResumed :: bool

definition CHECK_RESULT_part_000 ::
  "('e, 'f) fmod_scheme \<Rightarrow> int \<Rightarrow> (('e, 'a) page_scheme, unit) script" where
  "CHECK_RESULT_part_000 fm result' =
     (if result' \<noteq> OK fm
      then (let msg = ''Error!!! '' @ apostrophe @ ErrorString fm result' @ apostrophe
            in seq (alert msg) (\<lambda>_. throw (Thrown msg)))
      else return ())"

definition updateApplication_part_000 ::
  "('e, 'f) fmod_scheme \<Rightarrow> browser \<Rightarrow> (('e, 'a) page_scheme, unit) script" where
  "updateApplication_part_000 fm br =
     seq (invoke fm gSystemCore (\<lambda>_. GetCPUUsage)) (\<lambda>cpu.
     seq (CHECK_RESULT_part_000 fm (result cpu)) (\<lambda>_.
     seq (invoke fm gSystemCore (\<lambda>_. GetChannelsPlaying)) (\<lambda>channelsplaying.
     seq (CHECK_RESULT_part_000 fm (result channelsplaying)) (\<lambda>_.
     seq (set_value br ''#display_out''
            (''Channels Playing = '' @ toString br (val_number channelsplaying) @
             '' : CPU = dsp '' @ toFixed br (cpu_dsp cpu) 2 @
             ''% stream '' @ toFixed br (cpu_stream cpu) 2 @
             ''% update '' @ toFixed br (cpu_update cpu) 2 @
             ''% total '' @
               toFixed br (plus_js br (plus_js br (cpu_dsp cpu) (cpu_stream cpu)) (cpu_update cpu)) 2 @
             ''%'')) (\<lambda>_.
     seq (invoke fm gSystemCore (\<lambda>_. GetDSPBufferSize)) (\<lambda>buffers.
     seq (CHECK_RESULT_part_000 fm (result buffers)) (\<lambda>_.
     seq (invoke fm gSystemCore (\<lambda>_. GetSoftwareFormat)) (\<lambda>rate.
     seq (CHECK_RESULT_part_000 fm (result rate)) (\<lambda>_.
     seq (invoke fm gSystemCore (\<lambda>_ h. GetDriverInfo h 0)) (\<lambda>sysrate.
     seq (CHECK_RESULT_part_000 fm (result sysrate)) (\<lambda>_.
     (let buffersize = val_number buffers;
          numbuffers = val_number2 buffers;
          ms = divide_js br (times_js br (times_js br numbuffers buffersize) (Finite 1000))
                 (val_number rate)
      in
     seq (set_value br ''#display_out2''
            (''Mixer rate = '' @ toString br (val_number rate) @
             ''hz : System rate = '' @ toString br (val_number sysrate) @
             ''hz : DSP buffer size = '' @ toString br numbuffers @
             '' buffers of '' @ toString br buffersize @
             '' samples ('' @ toFixed br ms 2 @ '' ms)'')) (\<lambda>_.
     seq (invoke fm gSystem (\<lambda>_. Update)) (\<lambda>answer.
     CHECK_RESULT_part_000 fm (result answer)))))))))))))))"

definition loadBank_part_000 ::
  "('e, 'f) fmod_scheme \<Rightarrow> string \<Rightarrow> (('e, 'a) page_scheme, unit) script" where
  "loadBank_part_000 fm name =
     seq (invoke fm gSystem (\<lambda>_ h. LoadBankFile h (''/'' @ name) (STUDIO_LOAD_BANK_NORMAL fm)))
       (\<lambda>bankhandle.
     CHECK_RESULT_part_000 fm (result bankhandle))"

definition initApplication_part_000 ::
  "('e, 'f) fmod_scheme \<Rightarrow> browser \<Rightarrow> (('e, 'a) part_000_scheme, unit) script" where
  "initApplication_part_000 fm br =
     seq (console_log (''Loading events'' @ newline) []) (\<lambda>_.
     seq (loadBank_part_000 fm ''Master.bank'') (\<lambda>_.
     seq (loadBank_part_000 fm ''Master.strings.bank'') (\<lambda>_.
     seq (invoke fm gSystem (\<lambda>_ h. GetEvent h ''event:/Music'')) (\<lambda>loopingAmbienceDescription.
     seq (CHECK_RESULT_part_000 fm (result loopingAmbienceDescription)) (\<lambda>_.
     seq (invoke fm (\<lambda>_. Some (val_handle loopingAmbienceDescription)) (\<lambda>_. CreateInstance))
       (\<lambda>answer.
     seq (modify (\<lambda>s. s\<lparr>loopingAmbienceInstance_part_000 := Some (val_handle answer)\<rparr>)) (\<lambda>_.
     seq (CHECK_RESULT_part_000 fm (result answer)) (\<lambda>_.
     seq (set_disabled br ''playEvent0'' False) (\<lambda>_.
     set_disabled br ''playEvent1'' False)))))))))"

text \<open>The listener that \<^verbatim>\<open>main\<close> declares and registers for clicks or touches.\<close>

definition resumeAudio ::
  "('e, 'f) fmod_scheme \<Rightarrow> (('e, 'a) part_000_scheme, unit) script" where
  "resumeAudio fm = (\<lambda>s.
     if \<not> gAudioResumed s then
       (seq (invoke fm gSystemCore (\<lambda>_. MixerSuspend)) (\<lambda>answer.
        seq (CHECK_RESULT_part_000 fm (result answer)) (\<lambda>_.
        seq (invoke fm gSystemCore (\<lambda>_. MixerResume)) (\<lambda>answer.
        seq (CHECK_RESULT_part_000 fm (result answer)) (\<lambda>_.
        modify (\<lambda>s. s\<lparr>gAudioResumed := True\<rparr>)))))) s
     else return () s)"

definition main_part_000 ::
  "('e, 'f) fmod_scheme \<Rightarrow> browser \<Rightarrow> (('e, 'a) part_000_scheme, int) script" where
  "main_part_000 fm br =
     seq (console_log (''Creating FMOD System object'' @ newline) []) (\<lambda>_.
     seq (engine_call fm Studio_System_Create) (\<lambda>outval.
     seq (CHECK_RESULT_part_000 fm (result outval)) (\<lambda>_.
     seq (console_log (''grabbing system object from temporary and storing it'' @ newline) [])
       (\<lambda>_.
     seq (modify (\<lambda>s. s\<lparr>gSystem := Some (val_handle outval)\<rparr>)) (\<lambda>_.
     seq (invoke fm gSystem (\<lambda>_. GetCoreSystem)) (\<lambda>outval.
     seq (CHECK_RESULT_part_000 fm (result outval)) (\<lambda>_.
     seq (modify (\<lambda>s. s\<lparr>gSystemCore := Some (val_handle outval)\<rparr>)) (\<lambda>_.
     seq (console_log (''set DSP Buffer size.'' @ newline) []) (\<lambda>_.
     seq (invoke fm gSystemCore (\<lambda>_ h. SetDSPBufferSize h 2048 2)) (\<lambda>answer.
     seq (CHECK_RESULT_part_000 fm (result answer)) (\<lambda>_.
     seq (console_log ''Set mixer sample rate'' []) (\<lambda>_.
     seq (invoke fm gSystemCore (\<lambda>_ h. GetDriverInfo h 0)) (\<lambda>outval.
     seq (CHECK_RESULT_part_000 fm (result outval)) (\<lambda>_.
     seq (invoke fm gSystemCore
            (\<lambda>_ h. SetSoftwareFormat h (val_number outval) (SPEAKERMODE_DEFAULT fm) 0))
       (\<lambda>answer.
     seq (CHECK_RESULT_part_000 fm (result answer)) (\<lambda>_.
     seq (console_log (''initialize FMOD'' @ newline) []) (\<lambda>_.
     seq (invoke fm gSystem (\<lambda>_ h. Initialize h 1024 (STUDIO_INIT_NORMAL fm) (INIT_NORMAL fm)))
       (\<lambda>answer.
     seq (CHECK_RESULT_part_000 fm (result answer)) (\<lambda>_.
     seq (console_log (''initialize Application'' @ newline) []) (\<lambda>_.
     seq (initApplication_part_000 fm br) (\<lambda>_.
     seq (if iOS br
          then emit (AddEventListener ''window'' ''touchend'' ''resumeAudio'')
          else emit (AddEventListener ''document'' ''click'' ''resumeAudio'')) (\<lambda>_.
     seq (console_log (''Start game loop'' @ newline) []) (\<lambda>_.
     seq (emit (SetInterval ''updateApplication'' 20)) (\<lambda>_.
     return (OK fm)))))))))))))))))))))))))"

definition playEvent_part_000 ::
  "('e, 'f) fmod_scheme \<Rightarrow> browser \<Rightarrow> jsvalue \<Rightarrow> (('e, 'a) part_000_scheme, unit) script" where
  "playEvent_part_000 fm br soundid =
     (if loose_eq br soundid (Finite 0) then
        seq (invoke fm loopingAmbienceInstance_part_000 (\<lambda>_. Start)) (\<lambda>answer.
        CHECK_RESULT_part_000 fm (result answer))
      else if loose_eq br soundid (Finite 1) then
        seq (invoke fm loopingAmbienceInstance_part_000 (\<lambda>_ h. Stop h (STUDIO_STOP_IMMEDIATE fm)))
          (\<lambda>answer.
        CHECK_RESULT_part_000 fm (result answer))
      else return ())"

section \<open>What the statements observe\<close>

text \<open>The pages as the declarations of the three scripts leave them, before anything
  has run, over an engine in state \<open>e\<close>.\<close>

definition simple_event_start :: "'e \<Rightarrow> 'e simple_event" where
  "simple_event_start e =
     \<lparr>engine = e, trace = [], gSystem = None, gSystemCore = None,
      explosionDescription = None, loopingAmbienceInstance = None, cancelInstance = None\<rparr>"

definition music_callbacks_start :: "'e \<Rightarrow> 'e music_callbacks" where
  "music_callbacks_start e =
     \<lparr>engine = e, trace = [], gSystem = None, gSystemCore = None,
      gEventInstance = None, gProgression = Finite 0, gProgressionID = None\<rparr>"

definition part_000_start :: "'e \<Rightarrow> 'e part_000" where
  "part_000_start e =
     \<lparr>engine = e, trace = [], gSystem = None, gSystemCore = None,
      loopingAmbienceInstance_part_000 = None, gAudioResumed = False\<rparr>"

text \<open>The engine calls on a trace, in order.\<close>

fun calls_of :: "effect list \<Rightarrow> call list" where
  "calls_of [] = []"
| "calls_of (EngineCall c r # rest) = c # calls_of rest"
| "calls_of (x # rest) = calls_of rest"

text \<open>
  A stretch of trace and the outcome it ended with stop at the first failure when every
  engine call that did not return \<^verbatim>\<open>FMOD.OK\<close> is followed by its alert and by nothing
  else, and the outcome is the exception carrying the same message.
\<close>

fun stops_at_first_failure :: "('e, 'f) fmod_scheme \<Rightarrow> effect list \<Rightarrow> exn + 'a \<Rightarrow> bool" where
  "stops_at_first_failure fm [] out = True"
| "stops_at_first_failure fm (EngineCall c r # rest) out =
     (if result r = OK fm then stops_at_first_failure fm rest out
      else rest = [Alert (''Error!!! '' @ apostrophe @ ErrorString fm (result r) @ apostrophe)]
         \<and> out = Inl (Thrown (''Error!!! '' @ apostrophe @ ErrorString fm (result r) @ apostrophe)))"
| "stops_at_first_failure fm (x # rest) out = stops_at_first_failure fm rest out"

definition abandons_on_failure ::
  "('e, 'f) fmod_scheme \<Rightarrow> (('e, 'a) page_scheme, 'b) script \<Rightarrow> bool" where
  "abandons_on_failure fm operation =
     (\<forall>s. \<exists>new. trace (snd (operation s)) = trace s @ new
            \<and> stops_at_first_failure fm new (fst (operation s)))"

fun succeeded :: "('e, 'f) fmod_scheme \<Rightarrow> effect \<Rightarrow> bool" where
  "succeeded fm (EngineCall c r) = (result r = OK fm)"
| "succeeded fm x = True"

text \<open>An operation whose effects all satisfy \<open>P\<close>.\<close>

definition only_effects ::
  "(effect \<Rightarrow> bool) \<Rightarrow> (('e, 'a) page_scheme, 'b) script \<Rightarrow> bool" where
  "only_effects P operation =
     (\<forall>s. \<exists>new. trace (snd (operation s)) = trace s @ new \<and> list_all P new)"

text \<open>A statement that either throws the runtime's \<^verbatim>\<open>TypeError\<close> before reaching the
  engine, or makes one engine call and returns its reply.\<close>

definition makes_a_call ::
  "('e, 'f) fmod_scheme \<Rightarrow> (('e, 'a) page_scheme, reply) script \<Rightarrow> bool" where
  "makes_a_call fm m =
     (\<forall>s. (fst (m s) = Inl TypeError \<and> trace (snd (m s)) = trace s)
        \<or> (\<exists>c r. fst (m s) = Inr r \<and> trace (snd (m s)) = trace s @ [EngineCall c r]))"

text \<open>What the marker callback may do: write to the console, query the name and the
  length of the Sound it was handed, and show the alert of a failed check.\<close>

fun callback_effect :: "('e, 'f) fmod_scheme \<Rightarrow> parameters \<Rightarrow> effect \<Rightarrow> bool" where
  "callback_effect fm p (ConsoleLog fmt args) = True"
| "callback_effect fm p (Alert msg) = True"
| "callback_effect fm p (EngineCall c r) =
     (case p of Sound h \<Rightarrow> c = GetName h \<or> c = GetLength h (TIMEUNIT_MS fm) | _ \<Rightarrow> False)"
| "callback_effect fm p x = False"



fun starts_timer :: "effect \<Rightarrow> bool" where
  "starts_timer (SetInterval f ms) = True"
| "starts_timer x = False"

text \<open>An operation that has started no timer whenever it ends with an exception.\<close>

definition timer_only_on_success :: "(('e, 'a) page_scheme, 'b) script \<Rightarrow> bool" where
  "timer_only_on_success operation =
     (\<forall>s. \<exists>new. trace (snd (operation s)) = trace s @ new
            \<and> ((\<exists>e. fst (operation s) = Inl e) \<longrightarrow> list_all (\<lambda>x. \<not> starts_timer x) new))"

text \<open>The alerts of the result check, which the descriptions of a run below leave aside.\<close>

fun is_alert :: "effect \<Rightarrow> bool" where
  "is_alert (Alert msg) = True"
| "is_alert x = False"

text \<open>
  The first part of \<^verbatim>\<open>main\<close> in \<^verbatim>\<open>simple_event.js\<close> and in the third script, as a
  stretch of trace, for six answers of the engine: the system is created, its core system
  fetched, the DSP buffer size set, the driver's rate read and set as the software format,
  and the system initialized, with the console lines in between.
\<close>

definition engine_start_up ::
  "('e, 'f) fmod_scheme \<Rightarrow> reply \<Rightarrow> reply \<Rightarrow> reply \<Rightarrow> reply \<Rightarrow> reply \<Rightarrow> reply \<Rightarrow> effect list" where
  "engine_start_up fm r1 r2 r3 r4 r5 r6 =
     [ConsoleLog (''Creating FMOD System object'' @ newline) [],
      EngineCall Studio_System_Create r1,
      ConsoleLog (''grabbing system object from temporary and storing it'' @ newline) [],
      EngineCall (GetCoreSystem (val_handle r1)) r2,
      ConsoleLog (''set DSP Buffer size.'' @ newline) [],
      EngineCall (SetDSPBufferSize (val_handle r2) 2048 2) r3,
      ConsoleLog ''Set mixer sample rate'' [],
      EngineCall (GetDriverInfo (val_handle r2) 0) r4,
      EngineCall (SetSoftwareFormat (val_handle r2) (val_number r4) (SPEAKERMODE_DEFAULT fm) 0) r5,
      ConsoleLog (''initialize FMOD'' @ newline) [],
      EngineCall (Initialize (val_handle r1) 1024 (STUDIO_INIT_NORMAL fm) (INIT_NORMAL fm)) r6,
      ConsoleLog (''initialize Application'' @ newline) []]"

subsection \<open>A scripted engine and a browser for the worked examples\<close>

text \<open>The engine counts the calls it has answered; its \<open>n\<close>-th answer has the result
  code \<open>plan n\<close> and hands out \<open>n\<close> as the new object. \<^verbatim>\<open>FMOD.OK\<close> is 0 and the four
  callback types are the bits \<open>0x800\<close>, \<open>0x1000\<close>, \<open>0x2000\<close> and \<open>0x4000\<close>, as in the
  engine's headers.\<close>

definition scripted_reply :: "(nat \<Rightarrow> int) \<Rightarrow> nat \<Rightarrow> reply" where
  "scripted_reply plan n =
     \<lparr>result = plan n, val_handle = n, val_number = Finite 48000,
      val_number2 = Finite 2, val_string = ''music.ogg'', val_id = (n, n),
      cpu_dsp = Finite 1, cpu_stream = Finite 0, cpu_update = Finite 0\<rparr>"

definition studio :: "(nat \<Rightarrow> int) \<Rightarrow> nat fmod" where
  "studio plan =
     \<lparr>OK = 0,
      ErrorString = (\<lambda>r. if r = 0 then ''No errors.'' else ''An invalid object handle was used.''),
      SPEAKERMODE_DEFAULT = 0,
      STUDIO_INIT_NORMAL = 0,
      INIT_NORMAL = 0,
      STUDIO_LOAD_BANK_NORMAL = 0,
      STUDIO_STOP_IMMEDIATE = 1,
      TIMEUNIT_MS = 1,
      STUDIO_EVENT_CALLBACK_TIMELINE_MARKER = 0x800,
      STUDIO_EVENT_CALLBACK_TIMELINE_BEAT = 0x1000,
      STUDIO_EVENT_CALLBACK_SOUND_PLAYED = 0x2000,
      STUDIO_EVENT_CALLBACK_SOUND_STOPPED = 0x4000,
      respond = (\<lambda>n c. (scripted_reply plan n, Suc n))\<rparr>"

definition always_ok :: "nat \<Rightarrow> int" where
  "always_ok n = 0"

definition fails_at :: "nat \<Rightarrow> nat \<Rightarrow> int" where
  "fails_at k n = (if n = k then 30 else 0)"

text \<open>The browser of the examples formats every number alike. It reads the empty string
  as 0 and a string of decimal digits as its value, as the language does, and every other
  string as \<open>NaN\<close>; it has every element.\<close>

fun digit :: "char \<Rightarrow> nat option" where
  "digit c = map_of (zip ''0123456789'' [0, 1, 2, 3, 4, 5, 6, 7, 8, 9]) c"

fun digits_value :: "nat \<Rightarrow> string \<Rightarrow> nat option" where
  "digits_value n [] = Some n"
| "digits_value n (c # cs) =
     (case digit c of None \<Rightarrow> None | Some d \<Rightarrow> digits_value (10 * n + d) cs)"

definition digits_to_number :: "string \<Rightarrow> jsnumber" where
  "digits_to_number str =
     (case digits_value 0 str of None \<Rightarrow> NaN | Some n \<Rightarrow> Finite (of_nat n))"

definition plain_browser :: browser where
  "plain_browser =
     \<lparr>toFixed = (\<lambda>x digits. ''0.00''),
      toString = (\<lambda>x. ''0''),
      plus_js = (\<lambda>a b. a),
      times_js = (\<lambda>a b. a),
      divide_js = (\<lambda>a b. a),
      string_to_number = digits_to_number,
      has_element = (\<lambda>sel. True),
      iOS = False\<rparr>"

text \<open>A page of the third script as start-up leaves it, with the system object 0 and
  the core system 1.\<close>

definition ticking_page :: "nat part_000" where
  "ticking_page = (part_000_start 0)\<lparr>gSystem := Some 0, gSystemCore := Some 1\<rparr>"

section \<open>Properties\<close>

lemma CHECK_RESULT_music_callbacks_eq: "CHECK_RESULT_music_callbacks = CHECK_RESULT"
  by (intro ext) (simp add: CHECK_RESULT_music_callbacks_def CHECK_RESULT_def)

lemma CHECK_RESULT_part_000_eq: "CHECK_RESULT_part_000 = CHECK_RESULT"
  by (intro ext) (simp add: CHECK_RESULT_part_000_def CHECK_RESULT_def)

subsection \<open>Running the statements\<close>

lemma seq_run: "seq m k s = (case m s of (Inl e, s') \<Rightarrow> (Inl e, s') | (Inr x, s') \<Rightarrow> k x s')"
  by (simp add: seq_def)

lemma CHECK_RESULT_run:
  "CHECK_RESULT fm r s =
     (if r = OK fm then (Inr (), s)
      else (Inl (Thrown (''Error!!! '' @ apostrophe @ ErrorString fm r @ apostrophe)),
            s\<lparr>trace := trace s @ [Alert (''Error!!! '' @ apostrophe @ ErrorString fm r @ apostrophe)]\<rparr>))"
  by (simp add: CHECK_RESULT_def seq_def alert_def emit_def throw_def return_def Let_def)

lemma stops_Inr_succeeded':
  "stops_at_first_failure fm new out \<Longrightarrow> out = Inr x \<Longrightarrow> list_all (succeeded fm) new"
  by (induction fm new out rule: stops_at_first_failure.induct) (auto split: if_splits)

lemma stops_Inr_succeeded:
  "stops_at_first_failure fm new (Inr x) \<Longrightarrow> list_all (succeeded fm) new"
  by (rule stops_Inr_succeeded') auto

lemma stops_append:
  "list_all (succeeded fm) xs \<Longrightarrow>
     stops_at_first_failure fm (xs @ ys) out = stops_at_first_failure fm ys out"
  by (induction fm xs out rule: stops_at_first_failure.induct) auto

lemma stops_Inl_any':
  "stops_at_first_failure fm new out \<Longrightarrow> out = Inl e \<Longrightarrow>
     stops_at_first_failure fm new (Inl e :: exn + 'b)"
  by (induction fm new out rule: stops_at_first_failure.induct) (auto split: if_splits)

lemma stops_Inl_any:
  "stops_at_first_failure fm new (Inl e :: exn + 'a) \<Longrightarrow>
     stops_at_first_failure fm new (Inl e :: exn + 'b)"
  by (rule stops_Inl_any') auto

lemma abandons_seq:
  assumes m: "abandons_on_failure fm m" and k: "\<And>x. abandons_on_failure fm (k x)"
  shows "abandons_on_failure fm (seq m k)"
  unfolding abandons_on_failure_def
proof
  fix s
  obtain out1 s1 where ms: "m s = (out1, s1)" by (cases "m s")
  from m obtain new1 where n1: "trace s1 = trace s @ new1" "stops_at_first_failure fm new1 out1"
    unfolding abandons_on_failure_def using ms by (metis fst_conv snd_conv)
  show "\<exists>new. trace (snd (seq m k s)) = trace s @ new \<and> stops_at_first_failure fm new (fst (seq m k s))"
  proof (cases out1)
    case (Inl e)
    then show ?thesis using ms n1 by (auto simp: seq_run intro: stops_Inl_any)
  next
    case (Inr x)
    from k[of x] obtain new2 where n2: "trace (snd (k x s1)) = trace s1 @ new2"
       "stops_at_first_failure fm new2 (fst (k x s1))"
      unfolding abandons_on_failure_def by blast
    have "list_all (succeeded fm) new1" using n1(2) Inr by (auto dest: stops_Inr_succeeded)
    then have "stops_at_first_failure fm (new1 @ new2) (fst (k x s1))"
      using n2(2) by (simp add: stops_append)
    then show ?thesis using ms Inr n1(1) n2(1) by (auto simp: seq_run)
  qed
qed

lemma makes_a_call_engine_call: "makes_a_call fm (engine_call fm c)"
  by (simp add: makes_a_call_def engine_call_def Let_def)

lemma makes_a_call_invoke: "makes_a_call fm (invoke fm obj method)"
  by (simp add: makes_a_call_def invoke_def engine_call_def Let_def throw_def split: option.splits)

lemma makes_a_call_invoke_sound: "makes_a_call fm (invoke_sound fm sound method)"
  by (simp add: makes_a_call_def invoke_sound_def engine_call_def Let_def throw_def split: parameters.splits)

lemmas makes_a_call_rules = makes_a_call_engine_call makes_a_call_invoke makes_a_call_invoke_sound

lemma abandons_checked_last:
  assumes a: "makes_a_call fm m"
  shows "abandons_on_failure fm (seq m (\<lambda>r. CHECK_RESULT fm (result r)))"
  unfolding abandons_on_failure_def
proof
  fix s
  from a[unfolded makes_a_call_def, rule_format, of s]
  show "\<exists>new. trace (snd (seq m (\<lambda>r. CHECK_RESULT fm (result r)) s)) = trace s @ new \<and>
     stops_at_first_failure fm new (fst (seq m (\<lambda>r. CHECK_RESULT fm (result r)) s))"
    by (cases "m s") (auto simp: seq_run CHECK_RESULT_run)
qed

lemma abandons_checked:
  assumes a: "makes_a_call fm m" and k: "\<And>r. abandons_on_failure fm (k r)"
  shows "abandons_on_failure fm (seq m (\<lambda>r. seq (CHECK_RESULT fm (result r)) (\<lambda>_. k r)))"
  unfolding abandons_on_failure_def
proof
  fix s
  let ?op = "seq m (\<lambda>r. seq (CHECK_RESULT fm (result r)) (\<lambda>_. k r))"
  from a[unfolded makes_a_call_def, rule_format, of s]
  show "\<exists>new. trace (snd (?op s)) = trace s @ new \<and> stops_at_first_failure fm new (fst (?op s))"
  proof (elim disjE conjE exE)
    assume "fst (m s) = Inl TypeError" "trace (snd (m s)) = trace s"
    then show ?thesis by (cases "m s") (auto simp: seq_run)
  next
    fix c r assume r: "fst (m s) = Inr r" "trace (snd (m s)) = trace s @ [EngineCall c r]"
    show ?thesis
    proof (cases "result r = OK fm")
      case False
      with r show ?thesis by (cases "m s") (auto simp: seq_run CHECK_RESULT_run)
    next
      case True
      from k[of r, unfolded abandons_on_failure_def, rule_format, of "snd (m s)"]
      obtain new where "trace (snd (k r (snd (m s)))) = trace (snd (m s)) @ new"
        "stops_at_first_failure fm new (fst (k r (snd (m s))))" by blast
      with r True show ?thesis by (cases "m s") (auto simp: seq_run CHECK_RESULT_run)
    qed
  qed
qed

lemma abandons_checked_store:
  assumes a: "makes_a_call fm m" and f: "\<And>r s. trace (f r s) = trace s"
    and k: "\<And>r. abandons_on_failure fm (k r)"
  shows "abandons_on_failure fm
           (seq m (\<lambda>r. seq (modify (f r)) (\<lambda>_. seq (CHECK_RESULT fm (result r)) (\<lambda>_. k r))))"
  unfolding abandons_on_failure_def
proof
  fix s
  let ?op = "seq m (\<lambda>r. seq (modify (f r)) (\<lambda>_. seq (CHECK_RESULT fm (result r)) (\<lambda>_. k r)))"
  from a[unfolded makes_a_call_def, rule_format, of s]
  show "\<exists>new. trace (snd (?op s)) = trace s @ new \<and> stops_at_first_failure fm new (fst (?op s))"
  proof (elim disjE conjE exE)
    assume "fst (m s) = Inl TypeError" "trace (snd (m s)) = trace s"
    then show ?thesis by (cases "m s") (auto simp: seq_run)
  next
    fix c r assume r: "fst (m s) = Inr r" "trace (snd (m s)) = trace s @ [EngineCall c r]"
    show ?thesis
    proof (cases "result r = OK fm")
      case False
      with r f show ?thesis by (cases "m s") (auto simp: seq_run CHECK_RESULT_run modify_def)
    next
      case True
      from k[of r, unfolded abandons_on_failure_def, rule_format, of "f r (snd (m s))"]
      obtain new where "trace (snd (k r (f r (snd (m s))))) = trace (f r (snd (m s))) @ new"
        "stops_at_first_failure fm new (fst (k r (f r (snd (m s)))))" by blast
      with r True f show ?thesis by (cases "m s") (auto simp: seq_run CHECK_RESULT_run modify_def)
    qed
  qed
qed

lemma abandons_return: "abandons_on_failure fm (return x)"
  by (simp add: abandons_on_failure_def return_def)

lemma abandons_throw: "abandons_on_failure fm (throw e)"
  by (simp add: abandons_on_failure_def throw_def)

lemma abandons_modify: "(\<And>s. trace (f s) = trace s) \<Longrightarrow> abandons_on_failure fm (modify f)"
  by (simp add: abandons_on_failure_def modify_def)

lemma abandons_console_log: "abandons_on_failure fm (console_log fmt args)"
  by (simp add: abandons_on_failure_def console_log_def emit_def)

lemma abandons_set_value: "abandons_on_failure fm (set_value br sel text)"
  by (simp add: abandons_on_failure_def set_value_def emit_def throw_def)

lemma abandons_set_disabled: "abandons_on_failure fm (set_disabled br sel flag)"
  by (simp add: abandons_on_failure_def set_disabled_def emit_def throw_def)

lemma abandons_SetInterval: "abandons_on_failure fm (emit (SetInterval f ms))"
  by (simp add: abandons_on_failure_def emit_def)

lemma abandons_AddEventListener: "abandons_on_failure fm (emit (AddEventListener t e f))"
  by (simp add: abandons_on_failure_def emit_def)

lemma abandons_if:
  "abandons_on_failure fm a \<Longrightarrow> abandons_on_failure fm b \<Longrightarrow> abandons_on_failure fm (if c then a else b)"
  by simp

lemmas abandons_checked_rules =
  abandons_checked_store [OF makes_a_call_engine_call]
  abandons_checked_store [OF makes_a_call_invoke]
  abandons_checked_store [OF makes_a_call_invoke_sound]
  abandons_checked [OF makes_a_call_engine_call]
  abandons_checked [OF makes_a_call_invoke]
  abandons_checked [OF makes_a_call_invoke_sound]
  abandons_checked_last [OF makes_a_call_engine_call]
  abandons_checked_last [OF makes_a_call_invoke]
  abandons_checked_last [OF makes_a_call_invoke_sound]

lemmas abandons_plain_rules =
  abandons_return abandons_throw abandons_modify abandons_console_log abandons_set_value
  abandons_set_disabled abandons_SetInterval abandons_AddEventListener abandons_if

lemma abandons_updateApplication: "abandons_on_failure fm (updateApplication fm br)"
  unfolding updateApplication_def Let_def
  by (rule abandons_checked_rules | rule abandons_seq | rule abandons_plain_rules)+

lemma abandons_loadBank: "abandons_on_failure fm (loadBank fm name)"
  unfolding loadBank_def
  by (rule abandons_checked_rules)

lemma abandons_initApplication: "abandons_on_failure fm (initApplication fm br)"
  unfolding initApplication_def Let_def
  by (rule abandons_checked_rules | rule abandons_seq | rule abandons_plain_rules abandons_loadBank | simp)+

lemma abandons_main: "abandons_on_failure fm (main fm br)"
  unfolding main_def Let_def
  by (rule abandons_checked_rules | rule abandons_seq
        | rule abandons_plain_rules abandons_initApplication | simp)+

lemma abandons_playEvent: "abandons_on_failure fm (playEvent fm br soundid)"
  unfolding playEvent_def Let_def
  by (rule abandons_checked_rules | rule abandons_seq | rule abandons_plain_rules | simp)+


lemmas CHECK_RESULT_eqs = CHECK_RESULT_music_callbacks_eq CHECK_RESULT_part_000_eq

lemma engine_call_run:
  "engine_call fm c s =
     (Inr (fst (respond fm (engine s) c)),
      s\<lparr>engine := snd (respond fm (engine s) c),
        trace := trace s @ [EngineCall c (fst (respond fm (engine s) c))]\<rparr>)"
  by (simp add: engine_call_def Let_def)

lemma invoke_run:
  "invoke fm obj method s =
     (case obj s of None \<Rightarrow> (Inl TypeError, s)
      | Some h \<Rightarrow> engine_call fm (method s h) s)"
  by (simp add: invoke_def throw_def split: option.splits)

lemmas run_simps = seq_run CHECK_RESULT_run invoke_run engine_call_run emit_def console_log_def
  modify_def set_value_def set_disabled_def throw_def return_def Let_def CHECK_RESULT_eqs

lemmas studio_simps = studio_def scripted_reply_def fails_at_def always_ok_def plain_browser_def

subsection \<open>The result check\<close>

text \<open>
  C1. For every result value \<open>r\<close> handed to \<^verbatim>\<open>CHECK_RESULT\<close>, in each of the three
  scripts: when \<open>r\<close> is \<^verbatim>\<open>FMOD.OK\<close> the function returns and the page is as it was, and
  the statements after it run; for every other value it shows the alert with the message
  built from the engine's error string for \<open>r\<close> and throws that same message, and none
  of the statements after it runs.
\<close>

theorem CHECK_RESULT_alerts_and_throws:
  assumes "check = CHECK_RESULT \<or> check = CHECK_RESULT_music_callbacks
             \<or> check = CHECK_RESULT_part_000"
  shows "(r = OK fm \<longrightarrow> check fm r s = (Inr (), s) \<and> seq (check fm r) rest s = rest () s)
       \<and> (r \<noteq> OK fm \<longrightarrow>
            check fm r s =
              (Inl (Thrown (''Error!!! '' @ apostrophe @ ErrorString fm r @ apostrophe)),
               s\<lparr>trace := trace s @
                   [Alert (''Error!!! '' @ apostrophe @ ErrorString fm r @ apostrophe)]\<rparr>)
          \<and> seq (check fm r) rest s =
              (Inl (Thrown (''Error!!! '' @ apostrophe @ ErrorString fm r @ apostrophe)),
               s\<lparr>trace := trace s @
                   [Alert (''Error!!! '' @ apostrophe @ ErrorString fm r @ apostrophe)]\<rparr>))"
  using assms by (auto simp: CHECK_RESULT_eqs seq_run CHECK_RESULT_run)

theorem CHECK_RESULT_alerts_and_throws_witness:
  "CHECK_RESULT (studio always_ok) 0 (simple_event_start 0) = (Inr (), simple_event_start 0)
   \<and> CHECK_RESULT_part_000 (studio always_ok) 30 (part_000_start 0) =
       (Inl (Thrown (''Error!!! '' @ apostrophe @ ''An invalid object handle was used.'' @ apostrophe)),
        (part_000_start 0)\<lparr>trace :=
           [Alert (''Error!!! '' @ apostrophe @ ''An invalid object handle was used.'' @ apostrophe)]\<rparr>)
   \<and> seq (CHECK_RESULT_music_callbacks (studio always_ok) 30)
         (\<lambda>_. engine_call (studio always_ok) Studio_System_Create) (music_callbacks_start 0) =
       (Inl (Thrown (''Error!!! '' @ apostrophe @ ''An invalid object handle was used.'' @ apostrophe)),
        (music_callbacks_start 0)\<lparr>trace :=
           [Alert (''Error!!! '' @ apostrophe @ ''An invalid object handle was used.'' @ apostrophe)]\<rparr>)"
proof -
  have ok: "OK (studio always_ok) = 0"
    and msg: "ErrorString (studio always_ok) 30 = ''An invalid object handle was used.''"
    by (simp_all add: studio_def)
  have t1: "trace (part_000_start (0::nat)) = []" by (simp add: part_000_start_def)
  have t2: "trace (music_callbacks_start (0::nat)) = []" by (simp add: music_callbacks_start_def)
  show ?thesis
    using CHECK_RESULT_alerts_and_throws [of CHECK_RESULT 0 "studio always_ok" "simple_event_start 0" return]
      CHECK_RESULT_alerts_and_throws [of CHECK_RESULT_part_000 30 "studio always_ok" "part_000_start 0" return]
      CHECK_RESULT_alerts_and_throws [of CHECK_RESULT_music_callbacks 30 "studio always_ok"
          "music_callbacks_start 0" "\<lambda>_. engine_call (studio always_ok) Studio_System_Create"]
    by (simp add: ok msg t1 t2)
qed

subsection \<open>A failed call abandons the operation\<close>

lemma updateApplication_music_callbacks_eq: "updateApplication_music_callbacks = updateApplication"
  by (intro ext)
     (simp add: updateApplication_music_callbacks_def updateApplication_def CHECK_RESULT_eqs)

lemma updateApplication_part_000_eq: "updateApplication_part_000 = updateApplication"
  by (intro ext)
     (simp add: updateApplication_part_000_def updateApplication_def CHECK_RESULT_eqs)

lemma loadBank_music_callbacks_eq: "loadBank_music_callbacks = loadBank"
  by (intro ext) (simp add: loadBank_music_callbacks_def loadBank_def CHECK_RESULT_eqs)

lemma loadBank_part_000_eq: "loadBank_part_000 = loadBank"
  by (intro ext) (simp add: loadBank_part_000_def loadBank_def CHECK_RESULT_eqs)

lemma abandons_initApplication_music_callbacks:
  "abandons_on_failure fm (initApplication_music_callbacks fm br)"
  unfolding initApplication_music_callbacks_def Let_def CHECK_RESULT_eqs loadBank_music_callbacks_eq
  by (rule abandons_checked_rules | rule abandons_seq
        | rule abandons_plain_rules abandons_loadBank | simp)+

lemma abandons_main_music_callbacks: "abandons_on_failure fm (main_music_callbacks fm br)"
  unfolding main_music_callbacks_def Let_def CHECK_RESULT_eqs
  by (rule abandons_checked_rules | rule abandons_seq
        | rule abandons_plain_rules abandons_initApplication_music_callbacks | simp)+

lemma abandons_console_log_of_state:
  "abandons_on_failure fm (\<lambda>s. console_log (fmt s) args s)"
  by (simp add: abandons_on_failure_def console_log_def emit_def)

lemma abandons_toggleProgression: "abandons_on_failure fm (toggleProgression fm br)"
  unfolding toggleProgression_def Let_def CHECK_RESULT_eqs
  by (rule abandons_checked_rules | rule abandons_seq
        | rule abandons_plain_rules abandons_console_log_of_state | simp)+

lemma abandons_property: "abandons_on_failure fm (property props name)"
  by (simp add: abandons_on_failure_def property_def throw_def return_def split: parameters.splits)

lemma abandons_markerCallback:
  "abandons_on_failure fm (markerCallback fm br type event parameters')"
  unfolding markerCallback_def Let_def CHECK_RESULT_eqs
  by (rule abandons_checked_rules | rule abandons_seq
        | rule abandons_plain_rules abandons_property | simp)+

lemma abandons_initApplication_part_000:
  "abandons_on_failure fm (initApplication_part_000 fm br)"
  unfolding initApplication_part_000_def Let_def CHECK_RESULT_eqs loadBank_part_000_eq
  by (rule abandons_checked_rules | rule abandons_seq
        | rule abandons_plain_rules abandons_loadBank | simp)+

lemma abandons_main_part_000: "abandons_on_failure fm (main_part_000 fm br)"
  unfolding main_part_000_def Let_def CHECK_RESULT_eqs
  by (rule abandons_checked_rules | rule abandons_seq
        | rule abandons_plain_rules abandons_initApplication_part_000 | simp)+

lemma abandons_playEvent_part_000: "abandons_on_failure fm (playEvent_part_000 fm br soundid)"
  unfolding playEvent_part_000_def Let_def CHECK_RESULT_eqs
  by (rule abandons_checked_rules | rule abandons_seq | rule abandons_plain_rules | simp)+

lemma abandons_state_test:
  "abandons_on_failure fm a \<Longrightarrow> abandons_on_failure fm b \<Longrightarrow>
     abandons_on_failure fm (\<lambda>s. if c s then a s else b s)"
  by (simp add: abandons_on_failure_def)

lemma abandons_resumeAudio: "abandons_on_failure fm (resumeAudio fm)"
  unfolding resumeAudio_def Let_def CHECK_RESULT_eqs
  by (rule abandons_state_test | rule abandons_checked_rules | rule abandons_seq
        | rule abandons_plain_rules | simp)+

text \<open>
  C2. In every operation of the three scripts that makes several engine calls (\<^verbatim>\<open>main\<close>,
  \<^verbatim>\<open>initApplication\<close>, \<^verbatim>\<open>playEvent\<close>, \<^verbatim>\<open>updateApplication\<close>, and
  \<^verbatim>\<open>toggleProgression\<close>), from every state and against every engine: an engine call
  that does not return \<^verbatim>\<open>FMOD.OK\<close> is followed on the trace by its alert and by nothing
  else (no further engine call, no retry), and the operation ends with the thrown message.
\<close>

theorem failed_call_abandons_operation:
  "abandons_on_failure fm (main fm br)
   \<and> abandons_on_failure fm (initApplication fm br)
   \<and> abandons_on_failure fm (playEvent fm br soundid)
   \<and> abandons_on_failure fm (updateApplication fm br)
   \<and> abandons_on_failure fm (main_music_callbacks fm br)
   \<and> abandons_on_failure fm (initApplication_music_callbacks fm br)
   \<and> abandons_on_failure fm (toggleProgression fm br)
   \<and> abandons_on_failure fm (updateApplication_music_callbacks fm br)
   \<and> abandons_on_failure fm (main_part_000 fm br)
   \<and> abandons_on_failure fm (initApplication_part_000 fm br)
   \<and> abandons_on_failure fm (playEvent_part_000 fm br soundid)
   \<and> abandons_on_failure fm (updateApplication_part_000 fm br)"
  by (simp add: abandons_main abandons_initApplication abandons_playEvent
      abandons_updateApplication abandons_main_music_callbacks
      abandons_initApplication_music_callbacks abandons_toggleProgression
      updateApplication_music_callbacks_eq updateApplication_part_000_eq
      abandons_main_part_000 abandons_initApplication_part_000 abandons_playEvent_part_000)


lemma main_fails_at_2:
  "main (studio (fails_at 2)) plain_browser (simple_event_start 0) =
     (Inl (Thrown (''Error!!! '' @ apostrophe @ ''An invalid object handle was used.'' @ apostrophe)),
      \<lparr>engine = 3,
       trace =
         [ConsoleLog (''Creating FMOD System object'' @ newline) [],
          EngineCall Studio_System_Create (scripted_reply (fails_at 2) 0),
          ConsoleLog (''grabbing system object from temporary and storing it'' @ newline) [],
          EngineCall (GetCoreSystem 0) (scripted_reply (fails_at 2) 1),
          ConsoleLog (''set DSP Buffer size.'' @ newline) [],
          EngineCall (SetDSPBufferSize 1 2048 2) (scripted_reply (fails_at 2) 2),
          Alert (''Error!!! '' @ apostrophe @ ''An invalid object handle was used.'' @ apostrophe)],
       gSystem = Some 0, gSystemCore = Some 1, explosionDescription = None,
       loopingAmbienceInstance = None, cancelInstance = None\<rparr>)"
  by (simp add: main_def run_simps studio_simps simple_event_start_def)

theorem failed_call_abandons_operation_witness:
  "stops_at_first_failure (studio (fails_at 2))
     (trace (snd (main (studio (fails_at 2)) plain_browser (simple_event_start 0))))
     (fst (main (studio (fails_at 2)) plain_browser (simple_event_start 0)))
   \<and> calls_of (trace (snd (main (studio (fails_at 2)) plain_browser (simple_event_start 0)))) =
       [Studio_System_Create, GetCoreSystem 0, SetDSPBufferSize 1 2048 2]
   \<and> result (scripted_reply (fails_at 2) 2) \<noteq> OK (studio (fails_at 2))
   \<and> fst (main (studio (fails_at 2)) plain_browser (simple_event_start 0)) =
       Inl (Thrown (''Error!!! '' @ apostrophe @ ''An invalid object handle was used.'' @ apostrophe))"
proof -
  have "abandons_on_failure (studio (fails_at 2))
          (main (studio (fails_at 2)) plain_browser :: (nat simple_event, int) script)"
    by (rule failed_call_abandons_operation [THEN conjunct1])
  then have "stops_at_first_failure (studio (fails_at 2))
     (trace (snd (main (studio (fails_at 2)) plain_browser (simple_event_start 0))))
     (fst (main (studio (fails_at 2)) plain_browser (simple_event_start 0)))"
    unfolding abandons_on_failure_def
    by (metis append_Nil simple_event_start_def page.select_convs(2))
  then show ?thesis
    by (simp add: main_fails_at_2) (simp add: studio_simps)
qed

subsection \<open>The per-tick update\<close>

lemma updateApplication_eqs:
  "updateApplication_music_callbacks = updateApplication"
  "updateApplication_part_000 = updateApplication"
  by (simp_all add: updateApplication_music_callbacks_eq updateApplication_part_000_eq)

text \<open>
  C3. A tick of the per-tick update function, in each of the three scripts. Without a
  core system the tick throws at once. With one, its effects other than alerts are always
  an initial stretch of: the CPU usage and the channels playing queried and written to the
  first display; the DSP buffer size, the software format and the driver info queried and
  written to the second display; and then one \<^verbatim>\<open>update\<close> of the system, last. So
  \<^verbatim>\<open>update\<close> is never called twice and never before the queries. A tick that returns
  normally has made exactly these effects, \<^verbatim>\<open>update\<close> once; and when both display
  elements exist and every call the tick makes returns \<^verbatim>\<open>FMOD.OK\<close>, the tick does return
  normally. Without a system object the tick ends in an exception after the queries.
\<close>

theorem updateApplication_queries_then_updates_once:
  assumes "tick = updateApplication \<or> tick = updateApplication_music_callbacks
             \<or> tick = updateApplication_part_000"
    and "tick fm br s = (out, s')"
  shows "(gSystemCore s = None \<longrightarrow> out = Inl TypeError \<and> s' = s)
     \<and> (\<forall>core. gSystemCore s = Some core \<longrightarrow>
          (\<exists>new r1 r2 r3 r4 r5 r6.
             trace s' = trace s @ new
           \<and> (let queries =
                  [EngineCall (GetCPUUsage core) r1,
                   EngineCall (GetChannelsPlaying core) r2,
                   SetValue ''#display_out''
                     (''Channels Playing = '' @ toString br (val_number r2) @
                      '' : CPU = dsp '' @ toFixed br (cpu_dsp r1) 2 @
                      ''% stream '' @ toFixed br (cpu_stream r1) 2 @
                      ''% update '' @ toFixed br (cpu_update r1) 2 @
                      ''% total '' @
                        toFixed br (plus_js br (plus_js br (cpu_dsp r1) (cpu_stream r1))
                          (cpu_update r1)) 2 @
                      ''%''),
                   EngineCall (GetDSPBufferSize core) r3,
                   EngineCall (GetSoftwareFormat core) r4,
                   EngineCall (GetDriverInfo core 0) r5,
                   SetValue ''#display_out2''
                     (''Mixer rate = '' @ toString br (val_number r4) @
                      ''hz : System rate = '' @ toString br (val_number r5) @
                      ''hz : DSP buffer size = '' @ toString br (val_number2 r3) @
                      '' buffers of '' @ toString br (val_number r3) @
                      '' samples ('' @
                        toFixed br (divide_js br
                          (times_js br (times_js br (val_number2 r3) (val_number r3)) (Finite 1000))
                          (val_number r4)) 2 @
                      '' ms)'')]
               in (case gSystem s of
                     None \<Rightarrow>
                       prefix (filter (\<lambda>x. \<not> is_alert x) new) queries
                       \<and> (\<exists>e. out = Inl e)
                   | Some sys \<Rightarrow>
                       prefix (filter (\<lambda>x. \<not> is_alert x) new)
                         (queries @ [EngineCall (Update sys) r6])
                       \<and> (out = Inr () \<longrightarrow> new = queries @ [EngineCall (Update sys) r6])
                       \<and> (has_element br ''#display_out'' \<and> has_element br ''#display_out2''
                            \<and> list_all (succeeded fm) new \<longrightarrow> out = Inr ())))))"
proof -
  from assms have run: "updateApplication fm br s = (out, s')"
    by (auto simp: updateApplication_eqs)
  show ?thesis
  proof (cases "gSystemCore s")
    case None
    with run show ?thesis
      by (auto simp: updateApplication_def run_simps)
  next
    case core: (Some core)
    show ?thesis
    proof (cases "gSystem s")
      case None
      with run core show ?thesis
        by (auto simp: updateApplication_def run_simps split: if_splits)
    next
      case (Some sys)
      with run core show ?thesis
        by (auto simp: updateApplication_def run_simps split: if_splits)
    qed
  qed
qed

theorem updateApplication_queries_then_updates_once_witness:
  "fst (updateApplication (studio always_ok) plain_browser ticking_page) = Inr ()
   \<and> calls_of (trace (snd (updateApplication (studio always_ok) plain_browser ticking_page))) =
       [GetCPUUsage 1, GetChannelsPlaying 1, GetDSPBufferSize 1, GetSoftwareFormat 1,
        GetDriverInfo 1 0, Update 0]
   \<and> fst (updateApplication_music_callbacks (studio always_ok) plain_browser ticking_page) = Inr ()
   \<and> calls_of (trace (snd (updateApplication_music_callbacks (studio always_ok) plain_browser
        ticking_page))) =
       [GetCPUUsage 1, GetChannelsPlaying 1, GetDSPBufferSize 1, GetSoftwareFormat 1,
        GetDriverInfo 1 0, Update 0]
   \<and> fst (updateApplication_part_000 (studio always_ok) plain_browser ticking_page) = Inr ()
   \<and> calls_of (trace (snd (updateApplication_part_000 (studio always_ok) plain_browser
        ticking_page))) =
       [GetCPUUsage 1, GetChannelsPlaying 1, GetDSPBufferSize 1, GetSoftwareFormat 1,
        GetDriverInfo 1 0, Update 0]
   \<and> updateApplication (studio always_ok) plain_browser (part_000_start 0) =
       (Inl TypeError, part_000_start 0)"
proof -
  have start: "trace ticking_page = []" "gSystemCore ticking_page = Some 1"
    "gSystem ticking_page = Some 0"
    by (simp_all add: ticking_page_def part_000_start_def)
  have elements: "has_element plain_browser ''#display_out''"
    "has_element plain_browser ''#display_out2''"
    by (simp_all add: plain_browser_def)
  have each: "fst (tick (studio always_ok) plain_browser ticking_page) = Inr ()
      \<and> calls_of (trace (snd (tick (studio always_ok) plain_browser ticking_page))) =
          [GetCPUUsage 1, GetChannelsPlaying 1, GetDSPBufferSize 1, GetSoftwareFormat 1,
           GetDriverInfo 1 0, Update 0]"
    if copy: "tick = updateApplication \<or> tick = updateApplication_music_callbacks
               \<or> tick = updateApplication_part_000"
    for tick :: "nat fmod \<Rightarrow> browser \<Rightarrow> (nat part_000, unit) script"
  proof -
    let ?run = "tick (studio always_ok) plain_browser ticking_page"
    from copy have "tick = updateApplication"
      by (auto simp: updateApplication_eqs)
    then have ok: "list_all (succeeded (studio always_ok)) (trace (snd ?run))"
      by (simp add: updateApplication_def run_simps studio_simps ticking_page_def
          part_000_start_def)
    have "tick (studio always_ok) plain_browser ticking_page = (fst ?run, snd ?run)"
      by simp
    from updateApplication_queries_then_updates_once
           [of tick "studio always_ok" plain_browser ticking_page "fst ?run" "snd ?run",
            OF copy this]
    show ?thesis
      using ok start elements by (auto simp: Let_def)
  qed
  have "gSystemCore (part_000_start (0::nat)) = None"
    by (simp add: part_000_start_def)
  moreover have "updateApplication (studio always_ok) plain_browser (part_000_start 0) =
      (fst (updateApplication (studio always_ok) plain_browser (part_000_start 0)),
       snd (updateApplication (studio always_ok) plain_browser (part_000_start (0::nat))))"
    by simp
  from updateApplication_queries_then_updates_once
         [of updateApplication "studio always_ok" plain_browser "part_000_start 0"
             "fst (updateApplication (studio always_ok) plain_browser (part_000_start 0))"
             "snd (updateApplication (studio always_ok) plain_browser (part_000_start 0))",
          OF _ this]
  have "gSystemCore (part_000_start (0::nat)) = None \<longrightarrow>
      fst (updateApplication (studio always_ok) plain_browser (part_000_start 0)) = Inl TypeError
      \<and> snd (updateApplication (studio always_ok) plain_browser (part_000_start 0)) =
          part_000_start (0::nat)"
    by simp
  ultimately have "updateApplication (studio always_ok) plain_browser (part_000_start 0) =
       (Inl TypeError, part_000_start (0::nat))"
    by (simp add: prod_eq_iff)
  with each [of updateApplication] each [of updateApplication_music_callbacks]
    each [of updateApplication_part_000]
  show ?thesis
    by simp
qed

text \<open>
  C5. The per-tick update functions of the three scripts are the same function: on every
  engine, browser and page they return the same outcome and leave the same page, and so
  make the same engine calls and write the same two display strings.
\<close>

theorem updateApplication_embeddings_equal:
  "updateApplication_music_callbacks fm br s = updateApplication fm br s
   \<and> updateApplication_part_000 fm br s = updateApplication fm br s"
  by (simp add: updateApplication_music_callbacks_def updateApplication_part_000_def
      updateApplication_def CHECK_RESULT_eqs)

theorem updateApplication_embeddings_equal_witness:
  "updateApplication_music_callbacks (studio always_ok) plain_browser ticking_page =
     updateApplication (studio always_ok) plain_browser ticking_page
   \<and> updateApplication_part_000 (studio (fails_at 3)) plain_browser ticking_page =
     updateApplication (studio (fails_at 3)) plain_browser ticking_page
   \<and> calls_of (trace (snd (updateApplication (studio (fails_at 3)) plain_browser ticking_page))) =
       [GetCPUUsage 1, GetChannelsPlaying 1, GetDSPBufferSize 1, GetSoftwareFormat 1]"
  using updateApplication_embeddings_equal [of "studio always_ok" plain_browser ticking_page]
    updateApplication_embeddings_equal [of "studio (fails_at 3)" plain_browser ticking_page]
  by (simp add: updateApplication_def run_simps studio_simps ticking_page_def part_000_start_def)

subsection \<open>The user's actions\<close>




text \<open>
  C7. From every state, \<^verbatim>\<open>playEvent\<close> (in both scripts that have it),
  \<^verbatim>\<open>toggleProgression\<close>, the click listener \<^verbatim>\<open>resumeAudio\<close> and the per-tick update (of
  all three scripts) leave the global handle variables as they were, whether they return
  or throw: \<^verbatim>\<open>gSystem\<close>, \<^verbatim>\<open>gSystemCore\<close> and the event description and instance globals
  of the script. The per-tick update changes no global at all.
\<close>

theorem handles_are_not_reassigned:
  "(gSystem (snd (playEvent fm br soundid s)) = gSystem s
    \<and> gSystemCore (snd (playEvent fm br soundid s)) = gSystemCore s
    \<and> explosionDescription (snd (playEvent fm br soundid s)) = explosionDescription s
    \<and> loopingAmbienceInstance (snd (playEvent fm br soundid s)) = loopingAmbienceInstance s
    \<and> cancelInstance (snd (playEvent fm br soundid s)) = cancelInstance s)
   \<and> (gSystem (snd (toggleProgression fm br m)) = gSystem m
    \<and> gSystemCore (snd (toggleProgression fm br m)) = gSystemCore m
    \<and> gEventInstance (snd (toggleProgression fm br m)) = gEventInstance m)
   \<and> (gSystem (snd (playEvent_part_000 fm br soundid t)) = gSystem t
    \<and> gSystemCore (snd (playEvent_part_000 fm br soundid t)) = gSystemCore t
    \<and> loopingAmbienceInstance_part_000 (snd (playEvent_part_000 fm br soundid t)) =
        loopingAmbienceInstance_part_000 t)
   \<and> (gSystem (snd (resumeAudio fm t)) = gSystem t
    \<and> gSystemCore (snd (resumeAudio fm t)) = gSystemCore t
    \<and> loopingAmbienceInstance_part_000 (snd (resumeAudio fm t)) =
        loopingAmbienceInstance_part_000 t)
   \<and> (gSystem (snd (updateApplication fm br p)) = gSystem p
    \<and> gSystemCore (snd (updateApplication fm br p)) = gSystemCore p
    \<and> page.more (snd (updateApplication fm br p)) = page.more p)
   \<and> updateApplication_music_callbacks fm br p = updateApplication fm br p
   \<and> updateApplication_part_000 fm br p = updateApplication fm br p"
  by (intro conjI)
    (simp_all add: playEvent_def playEvent_part_000_def toggleProgression_def updateApplication_def
        resumeAudio_def
        updateApplication_music_callbacks_def updateApplication_part_000_def
        run_simps split: option.splits if_splits)

theorem handles_are_not_reassigned_witness:
  "gSystem (snd (playEvent_part_000 (studio (fails_at 0)) plain_browser (Number (Finite 0))
          (ticking_page\<lparr>loopingAmbienceInstance_part_000 := Some 5\<rparr>))) = Some 0
   \<and> gSystemCore (snd (playEvent_part_000 (studio (fails_at 0)) plain_browser (Number (Finite 0))
          (ticking_page\<lparr>loopingAmbienceInstance_part_000 := Some 5\<rparr>))) = Some 1
   \<and> loopingAmbienceInstance_part_000 (snd (playEvent_part_000 (studio (fails_at 0)) plain_browser (Number (Finite 0))
          (ticking_page\<lparr>loopingAmbienceInstance_part_000 := Some 5\<rparr>))) = Some 5
   \<and> calls_of (trace (snd (playEvent_part_000 (studio (fails_at 0)) plain_browser (Number (Finite 0))
          (ticking_page\<lparr>loopingAmbienceInstance_part_000 := Some 5\<rparr>)))) = [Start 5]"
  using handles_are_not_reassigned
          [of "studio (fails_at 0)" plain_browser "Number (Finite 0)" "simple_event_start 0"
              "music_callbacks_start 0" "ticking_page\<lparr>loopingAmbienceInstance_part_000 := Some 5\<rparr>"
              ticking_page]
  by (simp add: ticking_page_def part_000_start_def)
     (simp add: playEvent_part_000_def run_simps studio_simps js_eq_def)


subsection \<open>The marker callback\<close>

lemmas callback_simps = markerCallback_def property_def invoke_sound_def run_simps

text \<open>
  C6. For every callback type and every parameters value, from every state:
  everything \<^verbatim>\<open>markerCallback\<close> does to the outside is console output, the engine's
  \<^verbatim>\<open>getName\<close> and \<^verbatim>\<open>getLength\<close> queries on the Sound it was handed, and the alert of a
  failed check; and the page it leaves differs from the page it found at most in the
  engine's own state and in the trace, so no global variable is modified.
\<close>

theorem markerCallback_only_queries_and_logs:
  "only_effects (callback_effect fm parameters') (markerCallback fm br type event parameters')
   \<and> snd (markerCallback fm br type event parameters' s) =
       s\<lparr>engine := engine (snd (markerCallback fm br type event parameters' s)),
         trace := trace (snd (markerCallback fm br type event parameters' s))\<rparr>"
  unfolding only_effects_def
  by (auto simp: callback_simps split: parameters.splits)

theorem markerCallback_only_queries_and_logs_witness:
  "list_all (callback_effect (studio always_ok) (Sound 7))
     (trace (snd (markerCallback (studio always_ok) plain_browser 0x2000 3 (Sound 7)
        (music_callbacks_start 0))))
   \<and> calls_of (trace (snd (markerCallback (studio always_ok) plain_browser 0x2000 3 (Sound 7)
        (music_callbacks_start 0)))) = [GetName 7, GetLength 7 1]
   \<and> gEventInstance (snd (markerCallback (studio always_ok) plain_browser 0x2000 3 (Sound 7)
        (music_callbacks_start 0))) = None
   \<and> gProgression (snd (markerCallback (studio always_ok) plain_browser 0x2000 3 (Sound 7)
        (music_callbacks_start 0))) = Finite 0"
proof -
  let ?run = "markerCallback (studio always_ok) plain_browser 0x2000 3 (Sound 7)
        (music_callbacks_start (0::nat))"
  have start: "trace (music_callbacks_start (0::nat)) = []"
    "gEventInstance (music_callbacks_start (0::nat)) = None"
    "gProgression (music_callbacks_start (0::nat)) = Finite 0"
    by (simp_all add: music_callbacks_start_def)
  note fact = markerCallback_only_queries_and_logs
    [of "studio always_ok" "Sound 7" plain_browser "0x2000" 3 "music_callbacks_start 0"]
  from fact [THEN conjunct1, unfolded only_effects_def, rule_format, of "music_callbacks_start 0"]
  have "list_all (callback_effect (studio always_ok) (Sound 7)) (trace (snd ?run))"
    by (auto simp: start)
  moreover have "gEventInstance (snd ?run) = None"
    using arg_cong [where f = gEventInstance, OF fact [THEN conjunct2]] by (simp add: start)
  moreover have "gProgression (snd ?run) = Finite 0"
    using arg_cong [where f = gProgression, OF fact [THEN conjunct2]] by (simp add: start)
  moreover have "calls_of (trace (snd ?run)) = [GetName 7, GetLength 7 1]"
    by (simp add: callback_simps studio_simps music_callbacks_start_def)
  ultimately show ?thesis by simp
qed

text \<open>
  C10, as amended. \<^verbatim>\<open>markerCallback\<close> never returns a value other than \<^verbatim>\<open>FMOD.OK\<close>. For a callback
  type that is none of the four it knows, it returns \<^verbatim>\<open>FMOD.OK\<close> and leaves the page as it
  was. For every type, when the parameters are of the kind the branch reads (not null for
  the marker and beat callbacks, a Sound for the sound callbacks) and every engine query
  it makes returns \<^verbatim>\<open>FMOD.OK\<close>, it returns \<^verbatim>\<open>FMOD.OK\<close>.
\<close>

theorem markerCallback_returns_OK:
  assumes "markerCallback fm br type event parameters' s = (out, s')"
  shows "(\<forall>v. out = Inr v \<longrightarrow> v = OK fm)
     \<and> (type \<noteq> STUDIO_EVENT_CALLBACK_TIMELINE_MARKER fm
          \<and> type \<noteq> STUDIO_EVENT_CALLBACK_TIMELINE_BEAT fm
          \<and> type \<noteq> STUDIO_EVENT_CALLBACK_SOUND_PLAYED fm
          \<and> type \<noteq> STUDIO_EVENT_CALLBACK_SOUND_STOPPED fm
          \<longrightarrow> out = Inr (OK fm) \<and> s' = s)
     \<and> (\<exists>new. trace s' = trace s @ new
          \<and> ((type = STUDIO_EVENT_CALLBACK_TIMELINE_MARKER fm
                 \<or> type = STUDIO_EVENT_CALLBACK_TIMELINE_BEAT fm
               \<longrightarrow> parameters' \<noteq> NoParameters)
             \<and> (type = STUDIO_EVENT_CALLBACK_SOUND_PLAYED fm
                 \<or> type = STUDIO_EVENT_CALLBACK_SOUND_STOPPED fm
               \<longrightarrow> (\<exists>h. parameters' = Sound h))
             \<and> list_all (succeeded fm) new
             \<longrightarrow> out = Inr (OK fm)))"
  using assms
  by (auto simp: callback_simps split: parameters.splits if_splits)


theorem markerCallback_returns_OK_witness:
  "fst (markerCallback (studio always_ok) plain_browser 0x2000 3 (Sound 7)
          (music_callbacks_start 0)) = Inr 0
   \<and> markerCallback (studio always_ok) plain_browser 0x1 3 NoParameters
          (music_callbacks_start 0) = (Inr 0, music_callbacks_start 0)"
proof -
  let ?fm = "studio always_ok"
  let ?run = "markerCallback ?fm plain_browser 0x2000 3 (Sound 7) (music_callbacks_start (0::nat))"
  let ?other = "markerCallback ?fm plain_browser 0x1 3 NoParameters (music_callbacks_start (0::nat))"
  have codes: "OK ?fm = 0" "STUDIO_EVENT_CALLBACK_TIMELINE_MARKER ?fm = 0x800"
    "STUDIO_EVENT_CALLBACK_TIMELINE_BEAT ?fm = 0x1000"
    "STUDIO_EVENT_CALLBACK_SOUND_PLAYED ?fm = 0x2000"
    "STUDIO_EVENT_CALLBACK_SOUND_STOPPED ?fm = 0x4000"
    by (simp_all add: studio_def)
  have start: "trace (music_callbacks_start (0::nat)) = []"
    by (simp add: music_callbacks_start_def)
  have ok: "list_all (succeeded ?fm) (trace (snd ?run))"
    by (simp add: callback_simps studio_simps music_callbacks_start_def)
  have "?run = (fst ?run, snd ?run)" by simp
  from markerCallback_returns_OK [OF this] ok
  have "fst ?run = Inr 0"
    by (auto simp: codes start)
  moreover have "?other = (fst ?other, snd ?other)" by simp
  from markerCallback_returns_OK [OF this]
  have "?other = (Inr 0, music_callbacks_start 0)"
    by (simp add: codes prod_eq_iff)
  ultimately show ?thesis by simp
qed

text \<open>
  As first stated, C10 has \<^verbatim>\<open>markerCallback\<close> return \<^verbatim>\<open>FMOD.OK\<close> for every input as long as
  no engine query fails. The marker branch reads \<^verbatim>\<open>parameters.name\<close>: called for a marker
  with null parameters it throws a \<^verbatim>\<open>TypeError\<close>, having made no engine query at all.
\<close>

theorem markerCallback_null_parameters:
  "markerCallback (studio always_ok) plain_browser 0x800 3 NoParameters (music_callbacks_start 0) =
     (Inl TypeError, music_callbacks_start 0)
   \<and> calls_of (trace (snd (markerCallback (studio always_ok) plain_browser 0x800 3 NoParameters
        (music_callbacks_start 0)))) = []"
  by (simp add: callback_simps studio_simps music_callbacks_start_def)

subsection \<open>The click listener of the third script\<close>








subsection \<open>Start-up\<close>

lemma initApplication_appends:
  "initApplication fm br s = (out, s') \<Longrightarrow> \<exists>new. trace s' = trace s @ new"
  using abandons_initApplication [of fm br]
  unfolding abandons_on_failure_def by (metis snd_conv)

lemma only_effects_return: "only_effects P (return x)"
  by (simp add: only_effects_def return_def)

lemma only_effects_throw: "only_effects P (throw e)"
  by (simp add: only_effects_def throw_def)

lemma only_effects_modify: "(\<And>s. trace (f s) = trace s) \<Longrightarrow> only_effects P (modify f)"
  by (simp add: only_effects_def modify_def)

lemma only_effects_emit: "P x \<Longrightarrow> only_effects P (emit x)"
  by (simp add: only_effects_def emit_def)

lemma only_effects_console_log: "P (ConsoleLog fmt args) \<Longrightarrow> only_effects P (console_log fmt args)"
  by (simp add: console_log_def only_effects_emit)

lemma only_effects_set_value: "P (SetValue sel text) \<Longrightarrow> only_effects P (set_value br sel text)"
  by (simp add: set_value_def only_effects_emit only_effects_throw)

lemma only_effects_set_disabled:
  "P (SetDisabled sel flag) \<Longrightarrow> only_effects P (set_disabled br sel flag)"
  by (simp add: set_disabled_def only_effects_emit only_effects_throw)

lemma only_effects_engine_call: "(\<And>r. P (EngineCall c r)) \<Longrightarrow> only_effects P (engine_call fm c)"
  by (simp add: only_effects_def engine_call_run)

lemma only_effects_invoke: "(\<And>c r. P (EngineCall c r)) \<Longrightarrow> only_effects P (invoke fm obj method)"
  by (simp add: only_effects_def invoke_run engine_call_run split: option.splits)

lemma only_effects_CHECK_RESULT: "(\<And>msg. P (Alert msg)) \<Longrightarrow> only_effects P (CHECK_RESULT fm r)"
  by (simp add: only_effects_def CHECK_RESULT_run)

lemma only_effects_seq:
  assumes m: "only_effects P m" and k: "\<And>x. only_effects P (k x)"
  shows "only_effects P (seq m k)"
  unfolding only_effects_def
proof
  fix s
  from m obtain new1 where n1: "trace (snd (m s)) = trace s @ new1" "list_all P new1"
    unfolding only_effects_def by blast
  show "\<exists>new. trace (snd (seq m k s)) = trace s @ new \<and> list_all P new"
  proof (cases "fst (m s)")
    case (Inl e)
    with n1 show ?thesis by (cases "m s") (auto simp: seq_run)
  next
    case (Inr x)
    from k [of x] obtain new2 where
      "trace (snd (k x (snd (m s)))) = trace (snd (m s)) @ new2" "list_all P new2"
      unfolding only_effects_def by blast
    with n1 Inr show ?thesis by (cases "m s") (auto simp: seq_run)
  qed
qed

lemmas only_effects_rules =
  only_effects_seq only_effects_return only_effects_throw only_effects_modify
  only_effects_emit only_effects_console_log only_effects_set_value only_effects_set_disabled
  only_effects_engine_call only_effects_invoke only_effects_CHECK_RESULT

lemma loadBank_no_timer: "only_effects (\<lambda>x. \<not> starts_timer x) (loadBank fm name)"
  unfolding loadBank_def by (rule only_effects_rules | simp)+

lemma initApplication_no_timer: "only_effects (\<lambda>x. \<not> starts_timer x) (initApplication fm br)"
  unfolding initApplication_def by (rule only_effects_rules loadBank_no_timer | simp)+

lemma timer_only_on_success_seq:
  assumes m: "only_effects (\<lambda>x. \<not> starts_timer x) m" and k: "\<And>x. timer_only_on_success (k x)"
  shows "timer_only_on_success (seq m k)"
  unfolding timer_only_on_success_def
proof
  fix s
  from m obtain new1 where n1: "trace (snd (m s)) = trace s @ new1"
      "list_all (\<lambda>x. \<not> starts_timer x) new1"
    unfolding only_effects_def by blast
  show "\<exists>new. trace (snd (seq m k s)) = trace s @ new
          \<and> ((\<exists>e. fst (seq m k s) = Inl e) \<longrightarrow> list_all (\<lambda>x. \<not> starts_timer x) new)"
  proof (cases "fst (m s)")
    case (Inl e)
    with n1 show ?thesis by (cases "m s") (auto simp: seq_run)
  next
    case (Inr x)
    from k [of x] obtain new2 where
      "trace (snd (k x (snd (m s)))) = trace (snd (m s)) @ new2"
      "(\<exists>e. fst (k x (snd (m s))) = Inl e) \<longrightarrow> list_all (\<lambda>x. \<not> starts_timer x) new2"
      unfolding timer_only_on_success_def by blast
    with n1 Inr show ?thesis by (cases "m s") (auto simp: seq_run)
  qed
qed

lemma timer_only_on_success_last:
  "timer_only_on_success (seq (emit x) (\<lambda>_. return v))"
  by (simp add: timer_only_on_success_def seq_run emit_def return_def)

lemma timer_only_on_success_main: "timer_only_on_success (main fm br)"
  unfolding main_def
  by (rule timer_only_on_success_last
        | rule timer_only_on_success_seq
        | rule only_effects_rules initApplication_no_timer | simp)+


lemma initApplication_part_000_appends:
  "initApplication_part_000 fm br s = (out, s') \<Longrightarrow> \<exists>new. trace s' = trace s @ new"
  using abandons_initApplication_part_000 [of fm br]
  unfolding abandons_on_failure_def by (metis snd_conv)

lemma initApplication_part_000_no_timer:
  "only_effects (\<lambda>x. \<not> starts_timer x) (initApplication_part_000 fm br)"
  unfolding initApplication_part_000_def loadBank_part_000_eq CHECK_RESULT_eqs
  by (rule only_effects_rules loadBank_no_timer | simp)+

lemma timer_only_on_success_if:
  "timer_only_on_success (seq a k) \<Longrightarrow> timer_only_on_success (seq b k) \<Longrightarrow>
     timer_only_on_success (seq (if c then a else b) k)"
  by simp

lemma timer_only_on_success_main_part_000: "timer_only_on_success (main_part_000 fm br)"
  unfolding main_part_000_def CHECK_RESULT_eqs
  by (rule timer_only_on_success_last
        | rule timer_only_on_success_if
        | rule timer_only_on_success_seq
        | rule only_effects_rules initApplication_part_000_no_timer | simp)+

text \<open>Single steps of a script, for walking through \<^verbatim>\<open>main\<close> one statement at a
  time.\<close>

lemma seq_console_log:
  "seq (console_log fmt args) k s = k () (s\<lparr>trace := trace s @ [ConsoleLog fmt args]\<rparr>)"
  by (simp add: seq_run console_log_def emit_def)

lemma seq_emit: "seq (emit x) k s = k () (s\<lparr>trace := trace s @ [x]\<rparr>)"
  by (simp add: seq_run emit_def)

lemma seq_modify: "seq (modify f) k s = k () (f s)"
  by (simp add: seq_run modify_def)

lemma engine_call_checked_cases:
  assumes "seq (engine_call fm c) (\<lambda>r. seq (CHECK_RESULT fm (result r)) (\<lambda>_. k r)) s = (out, s')"
  obtains (failed) r e where "result r \<noteq> OK fm"
      "out = Inl (Thrown (''Error!!! '' @ apostrophe @ ErrorString fm (result r) @ apostrophe))"
      "s' = s\<lparr>engine := e, trace := trace s @ [EngineCall c r,
          Alert (''Error!!! '' @ apostrophe @ ErrorString fm (result r) @ apostrophe)]\<rparr>"
  | (ok) r e where "result r = OK fm"
      "k r (s\<lparr>engine := e, trace := trace s @ [EngineCall c r]\<rparr>) = (out, s')"
  using assms
  by (auto simp: seq_run engine_call_run CHECK_RESULT_run split: if_splits)

lemma invoke_checked_cases:
  assumes "seq (invoke fm obj method) (\<lambda>r. seq (CHECK_RESULT fm (result r)) (\<lambda>_. k r)) s = (out, s')"
  obtains (undefined) "obj s = None" "out = Inl TypeError" "s' = s"
  | (failed) h r e where "obj s = Some h" "result r \<noteq> OK fm"
      "out = Inl (Thrown (''Error!!! '' @ apostrophe @ ErrorString fm (result r) @ apostrophe))"
      "s' = s\<lparr>engine := e, trace := trace s @ [EngineCall (method s h) r,
          Alert (''Error!!! '' @ apostrophe @ ErrorString fm (result r) @ apostrophe)]\<rparr>"
  | (ok) h r e where "obj s = Some h" "result r = OK fm"
      "k r (s\<lparr>engine := e, trace := trace s @ [EngineCall (method s h) r]\<rparr>) = (out, s')"
  using assms
  by (auto simp: seq_run invoke_run engine_call_run CHECK_RESULT_run split: if_splits option.splits)

lemmas plain_steps = seq_console_log seq_emit seq_modify

lemma initApplication_progress:
  assumes "initApplication fm br s = (out, s')" and "trace s' = trace s @ new"
    and "gSystem s = Some h"
    and "has_element br ''playEvent0''" "has_element br ''playEvent1''"
      "has_element br ''playEvent2''" "has_element br ''playEvent3''"
    and "list_all (succeeded fm) new"
  shows "out = Inr ()"
  using assms
  by (auto simp: initApplication_def loadBank_def run_simps split: if_splits)

lemma initApplication_part_000_progress:
  assumes "initApplication_part_000 fm br s = (out, s')" and "trace s' = trace s @ new"
    and "gSystem s = Some h"
    and "has_element br ''playEvent0''" "has_element br ''playEvent1''"
    and "list_all (succeeded fm) new"
  shows "out = Inr ()"
  using assms
  by (auto simp: initApplication_part_000_def loadBank_part_000_def run_simps split: if_splits)

lemma main_structure:
  assumes run: "main fm br (s :: ('e, 'a) simple_event_scheme) = (out, s')"
    and new: "trace s' = trace s @ new"
  shows "\<exists>r1 r2 r3 r4 r5 r6.
      (\<not> list_all (succeeded fm) new
         \<and> (\<exists>msg. out = Inl (Thrown msg))
         \<and> prefix (filter (\<lambda>x. \<not> is_alert x) new) (engine_start_up fm r1 r2 r3 r4 r5 r6))
    \<or> (list_all (succeeded fm) (engine_start_up fm r1 r2 r3 r4 r5 r6)
         \<and> (\<exists>e1 out1 s2.
               initApplication fm br
                 (s\<lparr>gSystem := Some (val_handle r1), gSystemCore := Some (val_handle r2),
                    engine := e1,
                    trace := trace s @ engine_start_up fm r1 r2 r3 r4 r5 r6\<rparr>) = (out1, s2)
             \<and> (case out1 of
                   Inl e \<Rightarrow> out = Inl e \<and> s' = s2
                 | Inr u \<Rightarrow>
                     out = Inr (OK fm)
                     \<and> s' = s2\<lparr>trace := trace s2 @
                              [ConsoleLog (''Start game loop'' @ newline) [],
                               SetInterval ''updateApplication'' 20]\<rparr>)))"
  using assms unfolding main_def engine_start_up_def
  apply (simp add: plain_steps split del: if_split)
  apply (erule engine_call_checked_cases)
  subgoal
    apply (rule exI)+
    apply (rule disjI1)
    apply auto
    done
  apply (simp add: plain_steps split del: if_split)
  apply (erule invoke_checked_cases)
    apply (simp split del: if_split)
  subgoal
    apply (rule exI)+
    apply (rule disjI1)
    apply auto
    done
  apply (simp add: plain_steps split del: if_split)
  apply (erule invoke_checked_cases)
    apply (simp split del: if_split)
  subgoal
    apply (rule exI)+
    apply (rule disjI1)
    apply auto
    done
  apply (simp add: plain_steps split del: if_split)
  apply (erule invoke_checked_cases)
    apply (simp split del: if_split)
  subgoal
    apply (rule exI)+
    apply (rule disjI1)
    apply auto
    done
  apply (simp add: plain_steps split del: if_split)
  apply (erule invoke_checked_cases)
    apply (simp split del: if_split)
  subgoal
    apply (rule exI)+
    apply (rule disjI1)
    apply auto
    done
  apply (simp add: plain_steps split del: if_split)
  apply (erule invoke_checked_cases)
    apply (simp split del: if_split)
  subgoal
    apply (rule exI)+
    apply (rule disjI1)
    apply auto
    done
  apply (simp add: plain_steps split del: if_split)
  subgoal for r1 h r2 ha r3 hb r4 hc r5 hd r6 e
    apply (rule exI [of _ r1])
    apply (rule exI [of _ r2])
    apply (rule exI [of _ r3])
    apply (rule exI [of _ r4])
    apply (rule exI [of _ r5])
    apply (rule exI [of _ r6])
    apply (rule disjI2)
    apply (intro conjI exI [of _ e])
    apply (auto simp: seq_run console_log_def emit_def return_def
                split: prod.split_asm sum.split_asm)
    done
  done

lemma main_part_000_structure:
  assumes run: "main_part_000 fm br (s :: ('e, 'a) part_000_scheme) = (out, s')"
    and new: "trace s' = trace s @ new"
  shows "\<exists>r1 r2 r3 r4 r5 r6.
      (\<not> list_all (succeeded fm) new
         \<and> (\<exists>msg. out = Inl (Thrown msg))
         \<and> prefix (filter (\<lambda>x. \<not> is_alert x) new) (engine_start_up fm r1 r2 r3 r4 r5 r6))
    \<or> (list_all (succeeded fm) (engine_start_up fm r1 r2 r3 r4 r5 r6)
         \<and> (\<exists>e1 out1 s2.
               initApplication_part_000 fm br
                 (s\<lparr>gSystem := Some (val_handle r1), gSystemCore := Some (val_handle r2),
                    engine := e1,
                    trace := trace s @ engine_start_up fm r1 r2 r3 r4 r5 r6\<rparr>) = (out1, s2)
             \<and> (case out1 of
                   Inl e \<Rightarrow> out = Inl e \<and> s' = s2
                 | Inr u \<Rightarrow>
                     out = Inr (OK fm)
                     \<and> s' = s2\<lparr>trace := trace s2 @
                              [if iOS br then AddEventListener ''window'' ''touchend'' ''resumeAudio''
                               else AddEventListener ''document'' ''click'' ''resumeAudio'',
                               ConsoleLog (''Start game loop'' @ newline) [],
                               SetInterval ''updateApplication'' 20]\<rparr>)))"
  using assms unfolding main_part_000_def engine_start_up_def CHECK_RESULT_eqs
  apply (simp add: plain_steps split del: if_split)
  apply (erule engine_call_checked_cases)
  subgoal
    apply (rule exI)+
    apply (rule disjI1)
    apply auto
    done
  apply (simp add: plain_steps split del: if_split)
  apply (erule invoke_checked_cases)
    apply (simp split del: if_split)
  subgoal
    apply (rule exI)+
    apply (rule disjI1)
    apply auto
    done
  apply (simp add: plain_steps split del: if_split)
  apply (erule invoke_checked_cases)
    apply (simp split del: if_split)
  subgoal
    apply (rule exI)+
    apply (rule disjI1)
    apply auto
    done
  apply (simp add: plain_steps split del: if_split)
  apply (erule invoke_checked_cases)
    apply (simp split del: if_split)
  subgoal
    apply (rule exI)+
    apply (rule disjI1)
    apply auto
    done
  apply (simp add: plain_steps split del: if_split)
  apply (erule invoke_checked_cases)
    apply (simp split del: if_split)
  subgoal
    apply (rule exI)+
    apply (rule disjI1)
    apply auto
    done
  apply (simp add: plain_steps split del: if_split)
  apply (erule invoke_checked_cases)
    apply (simp split del: if_split)
  subgoal
    apply (rule exI)+
    apply (rule disjI1)
    apply auto
    done
  apply (simp add: plain_steps split del: if_split)
  subgoal for r1 h r2 ha r3 hb r4 hc r5 hd r6 e
    apply (rule exI [of _ r1])
    apply (rule exI [of _ r2])
    apply (rule exI [of _ r3])
    apply (rule exI [of _ r4])
    apply (rule exI [of _ r5])
    apply (rule exI [of _ r6])
    apply (rule disjI2)
    apply (intro conjI exI [of _ e])
    apply (auto simp: seq_run console_log_def emit_def return_def
                split: prod.split_asm sum.split_asm if_split_asm)
    done
  done

lemma main_run:
  assumes run: "main fm br (s :: ('e, 'a) simple_event_scheme) = (out, s')"
  shows "(\<exists>new. trace s' = trace s @ new
          \<and> stops_at_first_failure fm new out
          \<and> (\<exists>r1 r2 r3 r4 r5 r6.
              (\<not> list_all (succeeded fm) new
                 \<and> (\<exists>msg. out = Inl (Thrown msg))
                 \<and> prefix (filter (\<lambda>x. \<not> is_alert x) new) (engine_start_up fm r1 r2 r3 r4 r5 r6))
            \<or> (list_all (succeeded fm) (engine_start_up fm r1 r2 r3 r4 r5 r6)
                 \<and> (\<exists>e1 out1 s2.
                       initApplication fm br
                         (s\<lparr>gSystem := Some (val_handle r1),
                            gSystemCore := Some (val_handle r2), engine := e1,
                            trace := trace s @ engine_start_up fm r1 r2 r3 r4 r5 r6\<rparr>) = (out1, s2)
                     \<and> (case out1 of
                           Inl e \<Rightarrow> out = Inl e \<and> s' = s2
                         | Inr u \<Rightarrow>
                             out = Inr (OK fm)
                             \<and> s' = s2\<lparr>trace := trace s2 @
                                      [ConsoleLog (''Start game loop'' @ newline) [],
                                       SetInterval ''updateApplication'' 20]\<rparr>))))
          \<and> (\<forall>f ms. SetInterval f ms \<in> set new \<longrightarrow> out = Inr (OK fm))
          \<and> (has_element br ''playEvent0'' \<and> has_element br ''playEvent1'' \<and> has_element br ''playEvent2'' \<and> has_element br ''playEvent3''
               \<and> list_all (succeeded fm) new \<longrightarrow> out = Inr (OK fm)))"
proof -
  from abandons_main [of fm br] run
  obtain new where new: "trace s' = trace s @ new" and stops: "stops_at_first_failure fm new out"
    unfolding abandons_on_failure_def by (metis fst_conv snd_conv)
  from timer_only_on_success_main [of fm br] run
  obtain new' where "trace s' = trace s @ new'"
    "(\<exists>e. out = Inl e) \<longrightarrow> list_all (\<lambda>x. \<not> starts_timer x) new'"
    unfolding timer_only_on_success_def by (metis fst_conv snd_conv)
  with new have quiet: "(\<exists>e. out = Inl e) \<longrightarrow> list_all (\<lambda>x. \<not> starts_timer x) new"
    by simp
  note shape = main_structure [OF run new]
  have okv: "v = OK fm" if "out = Inr v" for v
    using shape that
    apply (auto split: sum.split_asm)
    apply (case_tac out1)
     apply auto
    done
  have timer: "out = Inr (OK fm)" if "SetInterval f ms \<in> set new" for f ms
  proof (cases out)
    case (Inl e)
    with quiet that show ?thesis by (auto simp: list_all_iff)
  next
    case (Inr v)
    with okv [of v] show ?thesis by simp
  qed
  have progress: "out = Inr (OK fm)"
    if buttons: "has_element br ''playEvent0'' \<and> has_element br ''playEvent1'' \<and> has_element br ''playEvent2'' \<and> has_element br ''playEvent3''"
      and ok: "list_all (succeeded fm) new"
  proof -
    from shape ok obtain r1 r2 r3 r4 r5 r6 e1 out1 s2 where
      init: "initApplication fm br
         (s\<lparr>gSystem := Some (val_handle r1), gSystemCore := Some (val_handle r2), engine := e1,
            trace := trace s @ engine_start_up fm r1 r2 r3 r4 r5 r6\<rparr>) = (out1, s2)"
      and rest: "case out1 of Inl e \<Rightarrow> out = Inl e \<and> s' = s2
                 | Inr u \<Rightarrow> out = Inr (OK fm) \<and> s' = s2\<lparr>trace := trace s2 @
                      [ConsoleLog (''Start game loop'' @ newline) [],
                        SetInterval ''updateApplication'' 20]\<rparr>"
      by blast
    show ?thesis
    proof (cases out1)
      case (Inl e)
      with rest have same: "s' = s2" by simp
      from initApplication_appends [OF init] obtain loading where
        "trace s2 = trace s @ engine_start_up fm r1 r2 r3 r4 r5 r6 @ loading"
        by auto
      with new same have "new = engine_start_up fm r1 r2 r3 r4 r5 r6 @ loading"
        by simp
      with ok have "list_all (succeeded fm) loading"
        by simp
      with initApplication_progress [OF init, of loading] buttons
        \<open>trace s2 = trace s @ engine_start_up fm r1 r2 r3 r4 r5 r6 @ loading\<close>
      have "out1 = Inr ()" by simp
      with Inl show ?thesis by simp
    next
      case (Inr u)
      with rest show ?thesis by simp
    qed
  qed
  from new stops shape timer progress show ?thesis
    by blast
qed

lemma main_part_000_run:
  assumes run: "main_part_000 fm br (s :: ('e, 'a) part_000_scheme) = (out, s')"
  shows "(\<exists>new. trace s' = trace s @ new
          \<and> stops_at_first_failure fm new out
          \<and> (\<exists>r1 r2 r3 r4 r5 r6.
              (\<not> list_all (succeeded fm) new
                 \<and> (\<exists>msg. out = Inl (Thrown msg))
                 \<and> prefix (filter (\<lambda>x. \<not> is_alert x) new) (engine_start_up fm r1 r2 r3 r4 r5 r6))
            \<or> (list_all (succeeded fm) (engine_start_up fm r1 r2 r3 r4 r5 r6)
                 \<and> (\<exists>e1 out1 s2.
                       initApplication_part_000 fm br
                         (s\<lparr>gSystem := Some (val_handle r1),
                            gSystemCore := Some (val_handle r2), engine := e1,
                            trace := trace s @ engine_start_up fm r1 r2 r3 r4 r5 r6\<rparr>) = (out1, s2)
                     \<and> (case out1 of
                           Inl e \<Rightarrow> out = Inl e \<and> s' = s2
                         | Inr u \<Rightarrow>
                             out = Inr (OK fm)
                             \<and> s' = s2\<lparr>trace := trace s2 @
                                      [if iOS br then AddEventListener ''window'' ''touchend'' ''resumeAudio''
                                       else AddEventListener ''document'' ''click'' ''resumeAudio'',
                                       ConsoleLog (''Start game loop'' @ newline) [],
                                       SetInterval ''updateApplication'' 20]\<rparr>))))
          \<and> (\<forall>f ms. SetInterval f ms \<in> set new \<longrightarrow> out = Inr (OK fm))
          \<and> (has_element br ''playEvent0'' \<and> has_element br ''playEvent1''
               \<and> list_all (succeeded fm) new \<longrightarrow> out = Inr (OK fm)))"
proof -
  from abandons_main_part_000 [of fm br] run
  obtain new where new: "trace s' = trace s @ new" and stops: "stops_at_first_failure fm new out"
    unfolding abandons_on_failure_def by (metis fst_conv snd_conv)
  from timer_only_on_success_main_part_000 [of fm br] run
  obtain new' where "trace s' = trace s @ new'"
    "(\<exists>e. out = Inl e) \<longrightarrow> list_all (\<lambda>x. \<not> starts_timer x) new'"
    unfolding timer_only_on_success_def by (metis fst_conv snd_conv)
  with new have quiet: "(\<exists>e. out = Inl e) \<longrightarrow> list_all (\<lambda>x. \<not> starts_timer x) new"
    by simp
  note shape = main_part_000_structure [OF run new]
  have okv: "v = OK fm" if "out = Inr v" for v
    using shape that
    apply (auto split: sum.split_asm)
    apply (case_tac out1)
     apply auto
    done
  have timer: "out = Inr (OK fm)" if "SetInterval f ms \<in> set new" for f ms
  proof (cases out)
    case (Inl e)
    with quiet that show ?thesis by (auto simp: list_all_iff)
  next
    case (Inr v)
    with okv [of v] show ?thesis by simp
  qed
  have progress: "out = Inr (OK fm)"
    if buttons: "has_element br ''playEvent0'' \<and> has_element br ''playEvent1''"
      and ok: "list_all (succeeded fm) new"
  proof -
    from shape ok obtain r1 r2 r3 r4 r5 r6 e1 out1 s2 where
      init: "initApplication_part_000 fm br
         (s\<lparr>gSystem := Some (val_handle r1), gSystemCore := Some (val_handle r2), engine := e1,
            trace := trace s @ engine_start_up fm r1 r2 r3 r4 r5 r6\<rparr>) = (out1, s2)"
      and rest: "case out1 of Inl e \<Rightarrow> out = Inl e \<and> s' = s2
                 | Inr u \<Rightarrow> out = Inr (OK fm) \<and> s' = s2\<lparr>trace := trace s2 @
                      [if iOS br then AddEventListener ''window'' ''touchend'' ''resumeAudio''
                        else AddEventListener ''document'' ''click'' ''resumeAudio'',
                        ConsoleLog (''Start game loop'' @ newline) [],
                        SetInterval ''updateApplication'' 20]\<rparr>"
      by blast
    show ?thesis
    proof (cases out1)
      case (Inl e)
      with rest have same: "s' = s2" by simp
      from initApplication_part_000_appends [OF init] obtain loading where
        "trace s2 = trace s @ engine_start_up fm r1 r2 r3 r4 r5 r6 @ loading"
        by auto
      with new same have "new = engine_start_up fm r1 r2 r3 r4 r5 r6 @ loading"
        by simp
      with ok have "list_all (succeeded fm) loading"
        by simp
      with initApplication_part_000_progress [OF init, of loading] buttons
        \<open>trace s2 = trace s @ engine_start_up fm r1 r2 r3 r4 r5 r6 @ loading\<close>
      have "out1 = Inr ()" by simp
      with Inl show ?thesis by simp
    next
      case (Inr u)
      with rest show ?thesis by simp
    qed
  qed
  from new stops shape timer progress show ?thesis
    by blast
qed

text \<open>
  C4. \<^verbatim>\<open>main\<close> of \<^verbatim>\<open>simple_event.js\<close> and of the third script, from every state and
  against every engine. Every run appends to the trace, stops at the first engine call
  that fails, and is of one of two kinds. Either a call of the first part failed: then
  \<^verbatim>\<open>main\<close> threw the message of the result check, and what it did before, alerts aside,
  is an initial stretch of: create the Studio system; get its core system; set the DSP
  buffer size of the core system to 2048 samples in 2 buffers; read the driver info of
  driver 0 and set the software format to the rate read; initialize the system. Or all
  of this was done, in this order, each call returning \<^verbatim>\<open>FMOD.OK\<close>, and
  \<^verbatim>\<open>initApplication\<close> ran next, on the page with the two handles stored: if it threw,
  \<^verbatim>\<open>main\<close> threw the same and did nothing more; if it returned, \<^verbatim>\<open>main\<close> (after
  registering the click or touch listener, in the third script) started one timer for
  \<^verbatim>\<open>updateApplication\<close> every 20 ms as its last effect and returned \<^verbatim>\<open>FMOD.OK\<close>. A timer
  is on the trace only if the run returned \<^verbatim>\<open>FMOD.OK\<close>, hence only after the engine was
  initialized. And when the buttons that \<^verbatim>\<open>initApplication\<close> enables exist and every
  engine call of the run returns \<^verbatim>\<open>FMOD.OK\<close>, \<^verbatim>\<open>main\<close> returns \<^verbatim>\<open>FMOD.OK\<close>.
\<close>

theorem main_starts_engine_then_timer:
  assumes "main fm br (s :: ('e, 'a) simple_event_scheme) = (out, s')"
    and "main_part_000 fm br (t :: ('e, 'b) part_000_scheme) = (out', t')"
  shows "(\<exists>new. trace s' = trace s @ new
          \<and> stops_at_first_failure fm new out
          \<and> (\<exists>r1 r2 r3 r4 r5 r6.
              (\<not> list_all (succeeded fm) new
                 \<and> (\<exists>msg. out = Inl (Thrown msg))
                 \<and> prefix (filter (\<lambda>x. \<not> is_alert x) new) (engine_start_up fm r1 r2 r3 r4 r5 r6))
            \<or> (list_all (succeeded fm) (engine_start_up fm r1 r2 r3 r4 r5 r6)
                 \<and> (\<exists>e1 out1 s2.
                       initApplication fm br
                         (s\<lparr>gSystem := Some (val_handle r1),
                            gSystemCore := Some (val_handle r2), engine := e1,
                            trace := trace s @ engine_start_up fm r1 r2 r3 r4 r5 r6\<rparr>) = (out1, s2)
                     \<and> (case out1 of
                           Inl e \<Rightarrow> out = Inl e \<and> s' = s2
                         | Inr u \<Rightarrow>
                             out = Inr (OK fm)
                             \<and> s' = s2\<lparr>trace := trace s2 @
                                      [ConsoleLog (''Start game loop'' @ newline) [],
                                       SetInterval ''updateApplication'' 20]\<rparr>))))
          \<and> (\<forall>f ms. SetInterval f ms \<in> set new \<longrightarrow> out = Inr (OK fm))
          \<and> (has_element br ''playEvent0'' \<and> has_element br ''playEvent1'' \<and> has_element br ''playEvent2'' \<and> has_element br ''playEvent3''
               \<and> list_all (succeeded fm) new \<longrightarrow> out = Inr (OK fm)))
     \<and> (\<exists>new. trace t' = trace t @ new
          \<and> stops_at_first_failure fm new out'
          \<and> (\<exists>r1 r2 r3 r4 r5 r6.
              (\<not> list_all (succeeded fm) new
                 \<and> (\<exists>msg. out' = Inl (Thrown msg))
                 \<and> prefix (filter (\<lambda>x. \<not> is_alert x) new) (engine_start_up fm r1 r2 r3 r4 r5 r6))
            \<or> (list_all (succeeded fm) (engine_start_up fm r1 r2 r3 r4 r5 r6)
                 \<and> (\<exists>e1 out1 s2.
                       initApplication_part_000 fm br
                         (t\<lparr>gSystem := Some (val_handle r1),
                            gSystemCore := Some (val_handle r2), engine := e1,
                            trace := trace t @ engine_start_up fm r1 r2 r3 r4 r5 r6\<rparr>) = (out1, s2)
                     \<and> (case out1 of
                           Inl e \<Rightarrow> out' = Inl e \<and> t' = s2
                         | Inr u \<Rightarrow>
                             out' = Inr (OK fm)
                             \<and> t' = s2\<lparr>trace := trace s2 @
                                      [if iOS br then AddEventListener ''window'' ''touchend'' ''resumeAudio''
                                       else AddEventListener ''document'' ''click'' ''resumeAudio'',
                                       ConsoleLog (''Start game loop'' @ newline) [],
                                       SetInterval ''updateApplication'' 20]\<rparr>))))
          \<and> (\<forall>f ms. SetInterval f ms \<in> set new \<longrightarrow> out' = Inr (OK fm))
          \<and> (has_element br ''playEvent0'' \<and> has_element br ''playEvent1''
               \<and> list_all (succeeded fm) new \<longrightarrow> out' = Inr (OK fm)))"
  using assms by (intro conjI main_run main_part_000_run)

theorem main_starts_engine_then_timer_witness:
  "fst (main (studio always_ok) plain_browser (simple_event_start 0)) = Inr 0
   \<and> calls_of (trace (snd (main (studio always_ok) plain_browser (simple_event_start 0)))) =
       [Studio_System_Create, GetCoreSystem 0, SetDSPBufferSize 1 2048 2, GetDriverInfo 1 0,
        SetSoftwareFormat 1 (Finite 48000) 0 0, Initialize 0 1024 0 0,
        LoadBankFile 0 ''/Master.bank'' 0, LoadBankFile 0 ''/Master.strings.bank'' 0,
        LoadBankFile 0 ''/SFX.bank'' 0, GetEvent 0 ''event:/Ambience/Country'',
        CreateInstance 9, GetEvent 0 ''event:/UI/Cancel'', CreateInstance 11,
        GetEvent 0 ''event:/Weapons/Explosion'', LoadSampleData 13]
   \<and> last (trace (snd (main (studio always_ok) plain_browser (simple_event_start 0)))) =
       SetInterval ''updateApplication'' 20
   \<and> fst (main_part_000 (studio always_ok) plain_browser (part_000_start 0)) = Inr 0
   \<and> calls_of (trace (snd (main_part_000 (studio always_ok) plain_browser (part_000_start 0)))) =
       [Studio_System_Create, GetCoreSystem 0, SetDSPBufferSize 1 2048 2, GetDriverInfo 1 0,
        SetSoftwareFormat 1 (Finite 48000) 0 0, Initialize 0 1024 0 0,
        LoadBankFile 0 ''/Master.bank'' 0, LoadBankFile 0 ''/Master.strings.bank'' 0,
        GetEvent 0 ''event:/Music'', CreateInstance 8]
   \<and> last (trace (snd (main_part_000 (studio always_ok) plain_browser (part_000_start 0)))) =
       SetInterval ''updateApplication'' 20"
proof -
  let ?fm = "studio always_ok"
  let ?a = "main ?fm plain_browser (simple_event_start (0::nat))"
  let ?b = "main_part_000 ?fm plain_browser (part_000_start (0::nat))"
  have a: "calls_of (trace (snd ?a)) =
       [Studio_System_Create, GetCoreSystem 0, SetDSPBufferSize 1 2048 2, GetDriverInfo 1 0,
        SetSoftwareFormat 1 (Finite 48000) 0 0, Initialize 0 1024 0 0,
        LoadBankFile 0 ''/Master.bank'' 0, LoadBankFile 0 ''/Master.strings.bank'' 0,
        LoadBankFile 0 ''/SFX.bank'' 0, GetEvent 0 ''event:/Ambience/Country'',
        CreateInstance 9, GetEvent 0 ''event:/UI/Cancel'', CreateInstance 11,
        GetEvent 0 ''event:/Weapons/Explosion'', LoadSampleData 13]"
    "last (trace (snd ?a)) = SetInterval ''updateApplication'' 20"
    "list_all (succeeded ?fm) (trace (snd ?a))"
    by (simp_all add: main_def initApplication_def loadBank_def run_simps studio_simps
        simple_event_start_def)
  have b: "calls_of (trace (snd ?b)) =
       [Studio_System_Create, GetCoreSystem 0, SetDSPBufferSize 1 2048 2, GetDriverInfo 1 0,
        SetSoftwareFormat 1 (Finite 48000) 0 0, Initialize 0 1024 0 0,
        LoadBankFile 0 ''/Master.bank'' 0, LoadBankFile 0 ''/Master.strings.bank'' 0,
        GetEvent 0 ''event:/Music'', CreateInstance 8]"
    "last (trace (snd ?b)) = SetInterval ''updateApplication'' 20"
    "list_all (succeeded ?fm) (trace (snd ?b))"
    by (simp_all add: main_part_000_def initApplication_part_000_def loadBank_part_000_def
        run_simps studio_simps part_000_start_def)
  have start: "trace (simple_event_start (0::nat)) = []" "trace (part_000_start (0::nat)) = []"
    by (simp_all add: simple_event_start_def part_000_start_def)
  have elements: "has_element plain_browser sel" for sel
    by (simp add: plain_browser_def)
  have runs: "?a = (fst ?a, snd ?a)" "?b = (fst ?b, snd ?b)"
    by simp_all
  note both = main_starts_engine_then_timer [OF runs]
  from both [THEN conjunct1]
  obtain new where "trace (snd ?a) = trace (simple_event_start (0::nat)) @ new"
    and "has_element plain_browser ''playEvent0'' \<and> has_element plain_browser ''playEvent1''
         \<and> has_element plain_browser ''playEvent2'' \<and> has_element plain_browser ''playEvent3''
         \<and> list_all (succeeded ?fm) new \<longrightarrow> fst ?a = Inr (OK ?fm)"
    by blast
  with a(3) start(1) elements have outa: "fst ?a = Inr (OK ?fm)"
    by simp
  from both [THEN conjunct2]
  obtain new where "trace (snd ?b) = trace (part_000_start (0::nat)) @ new"
    and "has_element plain_browser ''playEvent0'' \<and> has_element plain_browser ''playEvent1''
         \<and> list_all (succeeded ?fm) new \<longrightarrow> fst ?b = Inr (OK ?fm)"
    by blast
  with b(3) start(2) elements have outb: "fst ?b = Inr (OK ?fm)"
    by simp
  have "OK ?fm = 0"
    by (simp add: studio_def)
  with outa outb a(1,2) b(1,2) show ?thesis
    by simp
qed

text \<open>
  \<^verbatim>\<open>main\<close> of \<^verbatim>\<open>music_callbacks.js\<close> has the two sample-rate statements commented out:
  it goes from the DSP buffer size straight to \<^verbatim>\<open>initialize\<close>. A run against the scripted
  engine; the callback mask is \<open>0x7000\<close>, without the marker bit \<open>0x800\<close>.
\<close>

lemma main_music_callbacks_example:
  "calls_of (trace (snd (main_music_callbacks (studio always_ok) plain_browser
      (music_callbacks_start 0)))) =
     [Studio_System_Create, GetCoreSystem 0, SetDSPBufferSize 1 2048 2, Initialize 0 1024 0 0,
      LoadBankFile 0 ''/Master.bank'' 0, LoadBankFile 0 ''/Master.strings.bank'' 0,
      LoadBankFile 0 ''/Music.bank'' 0, GetEvent 0 ''event:/Music/Level 01'', CreateInstance 7,
      SetCallback 8 ''markerCallback'' 0x7000, Start 8,
      GetParameterDescriptionByName 7 ''Progression'',
      SetParameterByID 8 (Some (11, 11)) (Finite 0) False]"
  by (simp add: main_music_callbacks_def initApplication_music_callbacks_def
      loadBank_music_callbacks_def run_simps studio_simps music_callbacks_start_def)

end
